theory Spec2Isabelle
  imports Complex_Main
begin

section \<open>The recommendation store of the MovieSir client\<close>

text \<open>
  The client keeps its recommendation state in a zustand store, \<open>useMovieStore\<close>. The
  source carries two definitions of that store, one after the other, in
  \<^verbatim>\<open>frontend/src/app/routes/OnboardingProtectedRoute.tsx\<close>: the first at lines 102-409
  and the second at lines 460-732. They share the state type and the success path of
  \<open>loadRecommended\<close>; they differ in the filter actions, in the failure path of
  \<open>loadRecommended\<close> and in the order of removal and network call of the two
  replacement actions. The first is embedded in full, the second in the actions that
  differ. The actions of the first definition keep their source names; those of the
  second carry the suffix \<open>2\<close>.

  A store action \<open>set(patch)\<close> becomes a record update of the state, \<open>get()\<close> the state
  passed in. The backend is a parameter: a function from the request to either the error
  the call throws (\<open>Inl\<close>) or the response body (\<open>Inr\<close>). An asynchronous action is
  modelled as one step from the state at the call to the state after the reply, with no
  other action of the store running in between, except the two that the response
  interceptor of the axios instance runs when a call is rejected with status 401.
\<close>

subsection \<open>Data\<close>

text \<open>
  Isabelle record fields share one name space, so the fields of the wire records carry a
  prefix: \<open>v2_\<close> for \<open>RecommendedMovieV2\<close>, \<open>req_\<close> and \<open>rr_\<close> for the fields named
  \<open>genres\<close> and \<open>exclude_adult\<close> of the two request bodies. In \<open>Movie\<close> the field
  \<open>id\<close> is written \<open>movie_id\<close> and \<open>genres\<close> is written \<open>movie_genres\<close>.
  Running times are minutes, as integers. A field the type marks optional, or that the
  code tests for presence, is an \<open>option\<close>. Fields of the wire records that the store
  and \<open>convertV2MovieToMovie\<close> never read are left out.
\<close>

record Filters =
  time :: string
  genres :: "string list"
  excludeAdult :: bool

record RecommendedMovieV2 =
  v2_tmdb_id :: int
  v2_title :: string
  v2_genres :: "string list"
  v2_release_date :: "string option"
  v2_vote_average :: rat
  v2_poster_path :: "string option"
  v2_overview :: string
  v2_runtime :: int

text \<open>
  The field \<open>year\<close> holds the result of \<open>new Date(release_date).getFullYear()\<close> when
  there is a release date: \<open>None\<close> is JavaScript's \<open>undefined\<close>, \<open>Some None\<close> the
  \<open>NaN\<close> of an unparsable date.
\<close>

record Movie =
  movie_id :: int
  tmdb_id :: "int option"
  title :: string
  movie_genres :: "string list"
  year :: "int option option"
  rating :: rat
  poster :: string
  description :: string
  runtime :: "int option"
  popular :: bool
  watched :: bool

record TrackV2 =
  movies :: "RecommendedMovieV2 list"
  total_runtime :: int
  label :: string

record RecommendResponseV2 =
  track_a :: TrackV2
  track_b :: TrackV2

record RecommendRequest =
  runtime_limit :: "int option"
  req_genres :: "string list"
  req_exclude_adult :: bool

record ReRecommendRequest =
  target_runtime :: "int option"
  excluded_ids :: "int list"
  track :: string
  rr_genres :: "string list"
  rr_exclude_adult :: bool

record ReRecommendResponse =
  success :: bool
  movie :: "RecommendedMovieV2 option"
  message :: "string option"

text \<open>
  What a failed call throws, as far as the store reads it: \<open>error.code\<close> and
  \<open>error.response?.status\<close>.
\<close>

record AxiosError =
  code :: "string option"
  status :: "int option"

record MovieState =
  filters :: Filters
  userId :: "int option"
  trackAMovies :: "Movie list"
  trackATotalRuntime :: int
  trackALabel :: string
  trackBMovies :: "Movie list"
  trackBTotalRuntime :: int
  trackBLabel :: string
  excludedIds :: "int list"
  recommendedMovies :: "Movie list"
  popularMovies :: "Movie list"
  detailMovieId :: "int option"
  isLoading :: bool
  error :: "string option"

subsection \<open>String constants of the source\<close>

text \<open>
  The labels and messages of the source are Korean. They are given here as the bytes of
  their UTF-8 encoding.
\<close>

text \<open>The initial label of Track A (Korean for ``tailored recommendation''), as UTF-8 bytes.\<close>

definition defaultTrackALabel :: string where
  "defaultTrackALabel =
    [CHR 0xEB, CHR 0xA7, CHR 0x9E, CHR 0xEC, CHR 0xB6, CHR 0xA4, CHR 0x20, CHR 0xEC, CHR 0xB6,
     CHR 0x94, CHR 0xEC, CHR 0xB2, CHR 0x9C]"

text \<open>The initial label of Track B (Korean for ``diversity recommendation''), as UTF-8 bytes.\<close>

definition defaultTrackBLabel :: string where
  "defaultTrackBLabel =
    [CHR 0xEB, CHR 0x8B, CHR 0xA4, CHR 0xEC, CHR 0x96, CHR 0x91, CHR 0xEC, CHR 0x84, CHR 0xB1,
     CHR 0x20, CHR 0xEC, CHR 0xB6, CHR 0x94, CHR 0xEC, CHR 0xB2, CHR 0x9C]"

text \<open>The generic message: ``an error occurred while fetching movie recommendations''.\<close>

definition msgLoadFailed :: string where
  "msgLoadFailed =
    [CHR 0xEC, CHR 0x98, CHR 0x81, CHR 0xED, CHR 0x99, CHR 0x94, CHR 0x20, CHR 0xEC, CHR 0xB6,
     CHR 0x94, CHR 0xEC, CHR 0xB2, CHR 0x9C, CHR 0xEC, CHR 0x9D, CHR 0x84, CHR 0x20, CHR 0xEA,
     CHR 0xB0, CHR 0x80, CHR 0xEC, CHR 0xA0, CHR 0xB8, CHR 0xEC, CHR 0x98, CHR 0xA4, CHR 0xEB,
     CHR 0x8A, CHR 0x94, CHR 0x20, CHR 0xEC, CHR 0xA4, CHR 0x91, CHR 0x20, CHR 0xEC, CHR 0x98,
     CHR 0xA4, CHR 0xEB, CHR 0xA5, CHR 0x98, CHR 0xEA, CHR 0xB0, CHR 0x80, CHR 0x20, CHR 0xEB,
     CHR 0xB0, CHR 0x9C, CHR 0xEC, CHR 0x83, CHR 0x9D, CHR 0xED, CHR 0x96, CHR 0x88, CHR 0xEC,
     CHR 0x8A, CHR 0xB5, CHR 0xEB, CHR 0x8B, CHR 0x88, CHR 0xEB, CHR 0x8B, CHR 0xA4]"

text \<open>``Cannot connect to the server. Please try again in a moment.''\<close>

definition msgNetwork :: string where
  "msgNetwork =
    [CHR 0xEC, CHR 0x84, CHR 0x9C, CHR 0xEB, CHR 0xB2, CHR 0x84, CHR 0xEC, CHR 0x97, CHR 0x90,
     CHR 0x20, CHR 0xEC, CHR 0x97, CHR 0xB0, CHR 0xEA, CHR 0xB2, CHR 0xB0, CHR 0xED, CHR 0x95,
     CHR 0xA0, CHR 0x20, CHR 0xEC, CHR 0x88, CHR 0x98, CHR 0x20, CHR 0xEC, CHR 0x97, CHR 0x86,
     CHR 0xEC, CHR 0x8A, CHR 0xB5, CHR 0xEB, CHR 0x8B, CHR 0x88, CHR 0xEB, CHR 0x8B, CHR 0xA4,
     CHR 0x2E, CHR 0x20, CHR 0xEC, CHR 0x9E, CHR 0xA0, CHR 0xEC, CHR 0x8B, CHR 0x9C, CHR 0x20,
     CHR 0xED, CHR 0x9B, CHR 0x84, CHR 0x20, CHR 0xEB, CHR 0x8B, CHR 0xA4, CHR 0xEC, CHR 0x8B,
     CHR 0x9C, CHR 0x20, CHR 0xEC, CHR 0x8B, CHR 0x9C, CHR 0xEB, CHR 0x8F, CHR 0x84, CHR 0xED,
     CHR 0x95, CHR 0xB4, CHR 0xEC, CHR 0xA3, CHR 0xBC, CHR 0xEC, CHR 0x84, CHR 0xB8, CHR 0xEC,
     CHR 0x9A, CHR 0x94, CHR 0x2E]"

text \<open>``Login is required. Please log in again.''\<close>

definition msgLoginRequired :: string where
  "msgLoginRequired =
    [CHR 0xEB, CHR 0xA1, CHR 0x9C, CHR 0xEA, CHR 0xB7, CHR 0xB8, CHR 0xEC, CHR 0x9D, CHR 0xB8,
     CHR 0xEC, CHR 0x9D, CHR 0xB4, CHR 0x20, CHR 0xED, CHR 0x95, CHR 0x84, CHR 0xEC, CHR 0x9A,
     CHR 0x94, CHR 0xED, CHR 0x95, CHR 0xA9, CHR 0xEB, CHR 0x8B, CHR 0x88, CHR 0xEB, CHR 0x8B,
     CHR 0xA4, CHR 0x2E, CHR 0x20, CHR 0xEB, CHR 0x8B, CHR 0xA4, CHR 0xEC, CHR 0x8B, CHR 0x9C,
     CHR 0x20, CHR 0xEB, CHR 0xA1, CHR 0x9C, CHR 0xEA, CHR 0xB7, CHR 0xB8, CHR 0xEC, CHR 0x9D,
     CHR 0xB8, CHR 0xED, CHR 0x95, CHR 0xB4, CHR 0xEC, CHR 0xA3, CHR 0xBC, CHR 0xEC, CHR 0x84,
     CHR 0xB8, CHR 0xEC, CHR 0x9A, CHR 0x94, CHR 0x2E]"

text \<open>``A server error occurred. Please try again in a moment.''\<close>

definition msgServerError :: string where
  "msgServerError =
    [CHR 0xEC, CHR 0x84, CHR 0x9C, CHR 0xEB, CHR 0xB2, CHR 0x84, CHR 0x20, CHR 0xEC, CHR 0x98,
     CHR 0xA4, CHR 0xEB, CHR 0xA5, CHR 0x98, CHR 0xEA, CHR 0xB0, CHR 0x80, CHR 0x20, CHR 0xEB,
     CHR 0xB0, CHR 0x9C, CHR 0xEC, CHR 0x83, CHR 0x9D, CHR 0xED, CHR 0x96, CHR 0x88, CHR 0xEC,
     CHR 0x8A, CHR 0xB5, CHR 0xEB, CHR 0x8B, CHR 0x88, CHR 0xEB, CHR 0x8B, CHR 0xA4, CHR 0x2E,
     CHR 0x20, CHR 0xEC, CHR 0x9E, CHR 0xA0, CHR 0xEC, CHR 0x8B, CHR 0x9C, CHR 0x20, CHR 0xED,
     CHR 0x9B, CHR 0x84, CHR 0x20, CHR 0xEB, CHR 0x8B, CHR 0xA4, CHR 0xEC, CHR 0x8B, CHR 0x9C,
     CHR 0x20, CHR 0xEC, CHR 0x8B, CHR 0x9C, CHR 0xEB, CHR 0x8F, CHR 0x84, CHR 0xED, CHR 0x95,
     CHR 0xB4, CHR 0xEC, CHR 0xA3, CHR 0xBC, CHR 0xEC, CHR 0x84, CHR 0xB8, CHR 0xEC, CHR 0x9A,
     CHR 0x94, CHR 0x2E]"

definition posterBase :: string where
  "posterBase = ''https://image.tmdb.org/t/p/w500''"

subsection \<open>JavaScript library functions used by the store\<close>

text \<open>\<open>Array.prototype.findIndex\<close>; \<open>None\<close> is the result \<open>-1\<close>.\<close>

fun findIndex :: "('a \<Rightarrow> bool) \<Rightarrow> 'a list \<Rightarrow> nat option" where
  "findIndex P [] = None"
| "findIndex P (x # xs) = (if P x then Some 0 else map_option Suc (findIndex P xs))"

text \<open>
  \<open>arr.splice(start, 0, item)\<close> on a fresh array: the item is inserted before position
  \<open>start\<close>, or at the end when \<open>start\<close> is beyond the length.
\<close>

definition splice :: "nat \<Rightarrow> 'a \<Rightarrow> 'a list \<Rightarrow> 'a list" where
  "splice start item arr = take start arr @ item # drop start arr"

text \<open>\<open>String.prototype.split\<close> with a one-character separator.\<close>

fun split_str :: "char \<Rightarrow> string \<Rightarrow> string list" where
  "split_str sep [] = ['''']"
| "split_str sep (c # cs) =
     (if c = sep then [] # split_str sep cs
      else (case split_str sep cs of
              [] \<Rightarrow> [c] # []
            | p # ps \<Rightarrow> (c # p) # ps))"

definition isDigit :: "char \<Rightarrow> bool" where
  "isDigit c = (48 \<le> (of_char c :: nat) \<and> (of_char c :: nat) \<le> 57)"

definition digitValue :: "char \<Rightarrow> int" where
  "digitValue c = int (of_char c :: nat) - 48"

definition decimal :: "string \<Rightarrow> int" where
  "decimal ds = foldl (\<lambda>n c. 10 * n + digitValue c) 0 ds"

text \<open>
  The white space that \<open>Number\<close> strips from both ends of its argument, as far as it
  is ASCII: tab, line feed, vertical tab, form feed, carriage return and space.
\<close>

definition isSpace :: "char \<Rightarrow> bool" where
  "isSpace c = ((of_char c :: nat) \<in> {9, 10, 11, 12, 13, 32})"

definition trim :: "string \<Rightarrow> string" where
  "trim s = rev (dropWhile isSpace (rev (dropWhile isSpace s)))"

text \<open>
  The value of a non-empty string of decimal digits, up to \<open>2 ^ 53\<close>: up to there
  every integer is a JavaScript number and the conversion is exact.
\<close>

definition digitsValue :: "string \<Rightarrow> int option" where
  "digitsValue ds =
     (if ds \<noteq> [] \<and> list_all isDigit ds \<and> decimal ds \<le> 2 ^ 53
      then Some (decimal ds) else None)"

text \<open>
  \<open>Number(s)\<close> on the integer model. The argument is stripped of white space; what is
  left converts to \<open>0\<close> when it is empty and to its value when it is a string of
  decimal digits, with or without one sign in front. \<open>None\<close> stands for every other
  result, which the integer model does not represent: \<open>NaN\<close> for text that is no
  numeral, and the values of fractional, exponent, hexadecimal, octal, binary and
  \<open>Infinity\<close> literals, of numerals above \<open>2 ^ 53\<close> (which JavaScript rounds) and
  of numerals padded with white space outside ASCII. Arithmetic on the converted
  values is integer arithmetic, which is what JavaScript computes as long as the
  values stay within \<open>2 ^ 53\<close>.
\<close>

definition Number :: "string \<Rightarrow> int option" where
  "Number s =
     (case trim s of
        [] \<Rightarrow> Some 0
      | c # cs \<Rightarrow>
          if c = CHR ''-'' then map_option uminus (digitsValue cs)
          else if c = CHR ''+'' then digitsValue cs
          else digitsValue (c # cs))"

text \<open>
  The conversion of the \<open>"HH:MM"\<close> budget that the source writes inline, in
  \<open>postRecommendationsV2\<close> and in both replacement actions:
  \<^verbatim>\<open>const [hours, minutes] = time.split(':').map(Number); hours * 60 + minutes\<close>.
  A missing second part is \<open>undefined\<close> and makes the sum \<open>NaN\<close>; parts after the
  second are ignored.
\<close>

definition userInputTime :: "string \<Rightarrow> int option" where
  "userInputTime t =
     (case map Number (split_str CHR '':'' t) of
        hours # minutes # _ \<Rightarrow>
          (case (hours, minutes) of
             (Some h, Some m) \<Rightarrow> Some (h * 60 + m)
           | _ \<Rightarrow> None)
      | _ \<Rightarrow> None)"

subsection \<open>The API module\<close>

text \<open>\<open>convertV2MovieToMovie\<close> of \<^verbatim>\<open>movieApi.ts\<close>; \<open>getFullYear\<close> is the \<open>Date\<close> of the host.\<close>

definition convertV2MovieToMovie :: "(string \<Rightarrow> int option) \<Rightarrow> RecommendedMovieV2 \<Rightarrow> Movie" where
  "convertV2MovieToMovie getFullYear v2Movie =
     \<lparr> movie_id = v2_tmdb_id v2Movie,
       tmdb_id = Some (v2_tmdb_id v2Movie),
       title = v2_title v2Movie,
       movie_genres = v2_genres v2Movie,
       year = (case v2_release_date v2Movie of
                 None \<Rightarrow> None
               | Some d \<Rightarrow> if d = [] then None else Some (getFullYear d)),
       rating = v2_vote_average v2Movie,
       poster = (case v2_poster_path v2Movie of
                   None \<Rightarrow> []
                 | Some p \<Rightarrow> if p = [] then [] else posterBase @ p),
       description = v2_overview v2Movie,
       runtime = Some (v2_runtime v2Movie),
       popular = False,
       watched = False \<rparr>"

text \<open>
  \<open>postRecommendationsV2\<close> converts the budget and posts the request; it rethrows what
  the call throws.
\<close>

definition postRecommendationsV2 ::
  "(RecommendRequest \<Rightarrow> AxiosError + RecommendResponseV2) \<Rightarrow> Filters
     \<Rightarrow> AxiosError + RecommendResponseV2" where
  "postRecommendationsV2 server fs =
     server \<lparr> runtime_limit = userInputTime (time fs),
              req_genres = genres fs,
              req_exclude_adult = excludeAdult fs \<rparr>"

definition postReRecommendSingle ::
  "(ReRecommendRequest \<Rightarrow> AxiosError + ReRecommendResponse) \<Rightarrow> ReRecommendRequest
     \<Rightarrow> AxiosError + ReRecommendResponse" where
  "postReRecommendSingle server request = server request"

subsection \<open>The store (first definition, source lines 102-409)\<close>

definition initialState :: MovieState where
  "initialState =
     \<lparr> filters = \<lparr> time = ''00:00'', genres = [], excludeAdult = False \<rparr>,
       userId = None,
       trackAMovies = [],
       trackATotalRuntime = 0,
       trackALabel = defaultTrackALabel,
       trackBMovies = [],
       trackBTotalRuntime = 0,
       trackBLabel = defaultTrackBLabel,
       excludedIds = [],
       recommendedMovies = [],
       popularMovies = [],
       detailMovieId = None,
       isLoading = False,
       error = None \<rparr>"

definition setUserId :: "int option \<Rightarrow> MovieState \<Rightarrow> MovieState" where
  "setUserId uid state = state\<lparr> userId := uid \<rparr>"

definition setDetailMovieId :: "int option \<Rightarrow> MovieState \<Rightarrow> MovieState" where
  "setDetailMovieId movieId state = state\<lparr> detailMovieId := movieId \<rparr>"

definition resetFilters :: "MovieState \<Rightarrow> MovieState" where
  "resetFilters state =
     state\<lparr> filters := \<lparr> time = ''00:00'', genres = [], excludeAdult = False \<rparr>,
            trackAMovies := [],
            trackATotalRuntime := 0,
            trackALabel := defaultTrackALabel,
            trackBMovies := [],
            trackBTotalRuntime := 0,
            trackBLabel := defaultTrackBLabel,
            excludedIds := [],
            recommendedMovies := [],
            popularMovies := [] \<rparr>"

text \<open>
  The response interceptor of the axios instance (the axios module, lines 68-96). Both
  calls of the store go through that instance, and neither sets \<open>skipAuth\<close>. A
  rejection passes the interceptor before it reaches the \<open>catch\<close> block of the
  caller: when the status is 401 the interceptor runs \<open>setUserId(null)\<close> and
  \<open>resetFilters()\<close> on the store, and for every status it rejects with the same
  error. Its event and its page redirects (also those for 400, 423 and 500) write
  nothing to the store and are not modelled.
\<close>

definition responseInterceptor :: "AxiosError \<Rightarrow> MovieState \<Rightarrow> MovieState" where
  "responseInterceptor err state =
     (if status err = Some 401 then resetFilters (setUserId None state) else state)"

definition setTime :: "string \<Rightarrow> MovieState \<Rightarrow> MovieState" where
  "setTime t state =
     state\<lparr> filters := (filters state)\<lparr> time := t \<rparr>,
            excludedIds := [] \<rparr>"

definition toggleGenre :: "string \<Rightarrow> MovieState \<Rightarrow> MovieState" where
  "toggleGenre genre state =
     state\<lparr> filters := (filters state)\<lparr> genres :=
                (if genre \<in> set (genres (filters state))
                 then filter (\<lambda>g. g \<noteq> genre) (genres (filters state))
                 else genres (filters state) @ [genre]) \<rparr>,
            excludedIds := [] \<rparr>"

definition toggleExcludeAdult :: "MovieState \<Rightarrow> MovieState" where
  "toggleExcludeAdult state =
     state\<lparr> filters := (filters state)\<lparr> excludeAdult := \<not> excludeAdult (filters state) \<rparr>,
            excludedIds := [] \<rparr>"

text \<open>The message chosen in the \<open>catch\<close> block of \<open>loadRecommended\<close>.\<close>

definition errorMessage :: "AxiosError \<Rightarrow> string" where
  "errorMessage err =
     (if code err = Some ''ERR_NETWORK'' then msgNetwork
      else if status err = Some 401 then msgLoginRequired
      else if status err = Some 500 then msgServerError
      else msgLoadFailed)"

definition loadRecommended ::
  "(RecommendRequest \<Rightarrow> AxiosError + RecommendResponseV2) \<Rightarrow> (string \<Rightarrow> int option)
     \<Rightarrow> MovieState \<Rightarrow> MovieState" where
  "loadRecommended server getFullYear state =
     (let fs = filters state;
          loading = state\<lparr> isLoading := True, error := None \<rparr>
      in case postRecommendationsV2 server fs of
           Inr result \<Rightarrow>
             (let trackA = map (convertV2MovieToMovie getFullYear) (movies (track_a result));
                  trackB = map (convertV2MovieToMovie getFullYear) (movies (track_b result));
                  allMovieIds = map v2_tmdb_id (movies (track_a result))
                                @ map v2_tmdb_id (movies (track_b result))
              in loading\<lparr> trackAMovies := trackA,
                          trackATotalRuntime := total_runtime (track_a result),
                          trackALabel := label (track_a result),
                          trackBMovies := trackB,
                          trackBTotalRuntime := total_runtime (track_b result),
                          trackBLabel := label (track_b result),
                          excludedIds := allMovieIds,
                          recommendedMovies := trackA,
                          popularMovies := trackB,
                          isLoading := False,
                          error := None \<rparr>)
         | Inl err \<Rightarrow>
             (responseInterceptor err loading)
                    \<lparr> error := Some (errorMessage err),
                      isLoading := False,
                      trackAMovies := [],
                      trackBMovies := [],
                      recommendedMovies := [],
                      popularMovies := [] \<rparr>)"

text \<open>\<open>m.runtime || 0\<close>: a missing running time counts as \<open>0\<close>.\<close>

definition runtimeOr0 :: "Movie \<Rightarrow> int" where
  "runtimeOr0 m = (case runtime m of None \<Rightarrow> 0 | Some r \<Rightarrow> r)"

text \<open>\<open>ms.reduce((sum, m) => sum + (m.runtime || 0), 0)\<close>.\<close>

definition remainingRuntime :: "Movie list \<Rightarrow> int" where
  "remainingRuntime ms = foldl (\<lambda>sum m. sum + runtimeOr0 m) 0 ms"

text \<open>
  \<open>userInputTime - remainingRuntime\<close>; \<open>None\<close> when the budget did not convert to an
  integer.
\<close>

definition targetRuntime :: "string \<Rightarrow> Movie list \<Rightarrow> int option" where
  "targetRuntime t remaining = map_option (\<lambda>u. u - remainingRuntime remaining) (userInputTime t)"

text \<open>
  The two replacement actions return the request they sent, if any, beside the next state.
  The first definition of the store calls the backend first and writes to the state only
  in the success branch, where removal and insertion happen in one \<open>set\<close>; when the
  call throws, the only write is the one of the response interceptor. The pause of
  300 ms before that \<open>set\<close> is not modelled; the state the \<open>set\<close> reads is the
  state at the call.
\<close>

definition removeRecommendedMovie ::
  "(ReRecommendRequest \<Rightarrow> AxiosError + ReRecommendResponse) \<Rightarrow> (string \<Rightarrow> int option)
     \<Rightarrow> int \<Rightarrow> MovieState \<Rightarrow> ReRecommendRequest option \<times> MovieState" where
  "removeRecommendedMovie server getFullYear movieId state =
     (case findIndex (\<lambda>m. movie_id m = movieId) (trackAMovies state) of
        None \<Rightarrow> (None, state)
      | Some movieIndex \<Rightarrow>
          (let newTrackAMovies = filter (\<lambda>m. movie_id m \<noteq> movieId) (trackAMovies state);
               newExcludedIds = excludedIds state @ [movieId];
               request = \<lparr> target_runtime = targetRuntime (time (filters state)) newTrackAMovies,
                           excluded_ids = newExcludedIds,
                           track = ''a'',
                           rr_genres = genres (filters state),
                           rr_exclude_adult = excludeAdult (filters state) \<rparr>
           in (Some request,
               case postReRecommendSingle server request of
                 Inl err \<Rightarrow> responseInterceptor err state
               | Inr response \<Rightarrow>
                   (case movie response of
                      None \<Rightarrow> state
                    | Some v2Movie \<Rightarrow>
                        if success response then
                          (let newMovie = convertV2MovieToMovie getFullYear v2Movie;
                               updatedMovies =
                                 splice movieIndex newMovie
                                   (filter (\<lambda>m. movie_id m \<noteq> movieId) (trackAMovies state))
                           in state\<lparr> trackAMovies := updatedMovies,
                                     recommendedMovies := updatedMovies,
                                     trackATotalRuntime :=
                                       remainingRuntime newTrackAMovies + runtimeOr0 newMovie,
                                     excludedIds := newExcludedIds @ [movie_id newMovie] \<rparr>)
                        else state))))"

definition removePopularMovie ::
  "(ReRecommendRequest \<Rightarrow> AxiosError + ReRecommendResponse) \<Rightarrow> (string \<Rightarrow> int option)
     \<Rightarrow> int \<Rightarrow> MovieState \<Rightarrow> ReRecommendRequest option \<times> MovieState" where
  "removePopularMovie server getFullYear movieId state =
     (case findIndex (\<lambda>m. movie_id m = movieId) (trackBMovies state) of
        None \<Rightarrow> (None, state)
      | Some movieIndex \<Rightarrow>
          (let newTrackBMovies = filter (\<lambda>m. movie_id m \<noteq> movieId) (trackBMovies state);
               newExcludedIds = excludedIds state @ [movieId];
               request = \<lparr> target_runtime = targetRuntime (time (filters state)) newTrackBMovies,
                           excluded_ids = newExcludedIds,
                           track = ''b'',
                           rr_genres = genres (filters state),
                           rr_exclude_adult = excludeAdult (filters state) \<rparr>
           in (Some request,
               case postReRecommendSingle server request of
                 Inl err \<Rightarrow> responseInterceptor err state
               | Inr response \<Rightarrow>
                   (case movie response of
                      None \<Rightarrow> state
                    | Some v2Movie \<Rightarrow>
                        if success response then
                          (let newMovie = convertV2MovieToMovie getFullYear v2Movie;
                               updatedMovies =
                                 splice movieIndex newMovie
                                   (filter (\<lambda>m. movie_id m \<noteq> movieId) (trackBMovies state))
                           in state\<lparr> trackBMovies := updatedMovies,
                                     popularMovies := updatedMovies,
                                     trackBTotalRuntime :=
                                       remainingRuntime newTrackBMovies + runtimeOr0 newMovie,
                                     excludedIds := newExcludedIds @ [movie_id newMovie] \<rparr>)
                        else state))))"

subsection \<open>The store (second definition, source lines 460-732)\<close>

text \<open>
  The second definition has the same initial state, \<open>setUserId\<close>, \<open>setDetailMovieId\<close>,
  \<open>resetFilters\<close> and success path of \<open>loadRecommended\<close>. Its filter actions patch
  \<open>filters\<close> only, and its \<open>catch\<close> block sets the generic message and \<open>isLoading\<close> only.
  Its replacement actions take the item out of the track before the call and append the
  replacement at the end.
\<close>

definition setTime2 :: "string \<Rightarrow> MovieState \<Rightarrow> MovieState" where
  "setTime2 t state = state\<lparr> filters := (filters state)\<lparr> time := t \<rparr> \<rparr>"

definition toggleGenre2 :: "string \<Rightarrow> MovieState \<Rightarrow> MovieState" where
  "toggleGenre2 genre state =
     state\<lparr> filters := (filters state)\<lparr> genres :=
                (if genre \<in> set (genres (filters state))
                 then filter (\<lambda>g. g \<noteq> genre) (genres (filters state))
                 else genres (filters state) @ [genre]) \<rparr> \<rparr>"

definition toggleExcludeAdult2 :: "MovieState \<Rightarrow> MovieState" where
  "toggleExcludeAdult2 state =
     state\<lparr> filters := (filters state)\<lparr> excludeAdult := \<not> excludeAdult (filters state) \<rparr> \<rparr>"

definition loadRecommended2 ::
  "(RecommendRequest \<Rightarrow> AxiosError + RecommendResponseV2) \<Rightarrow> (string \<Rightarrow> int option)
     \<Rightarrow> MovieState \<Rightarrow> MovieState" where
  "loadRecommended2 server getFullYear state =
     (let fs = filters state;
          loading = state\<lparr> isLoading := True, error := None \<rparr>
      in case postRecommendationsV2 server fs of
           Inr result \<Rightarrow>
             (let trackA = map (convertV2MovieToMovie getFullYear) (movies (track_a result));
                  trackB = map (convertV2MovieToMovie getFullYear) (movies (track_b result));
                  allMovieIds = map v2_tmdb_id (movies (track_a result))
                                @ map v2_tmdb_id (movies (track_b result))
              in loading\<lparr> trackAMovies := trackA,
                          trackATotalRuntime := total_runtime (track_a result),
                          trackALabel := label (track_a result),
                          trackBMovies := trackB,
                          trackBTotalRuntime := total_runtime (track_b result),
                          trackBLabel := label (track_b result),
                          excludedIds := allMovieIds,
                          recommendedMovies := trackA,
                          popularMovies := trackB,
                          isLoading := False,
                          error := None \<rparr>)
         | Inl err \<Rightarrow>
             (responseInterceptor err loading)
                    \<lparr> error := Some msgLoadFailed, isLoading := False \<rparr>)"

definition removeRecommendedMovie2 ::
  "(ReRecommendRequest \<Rightarrow> AxiosError + ReRecommendResponse) \<Rightarrow> (string \<Rightarrow> int option)
     \<Rightarrow> int \<Rightarrow> MovieState \<Rightarrow> ReRecommendRequest option \<times> MovieState" where
  "removeRecommendedMovie2 server getFullYear movieId state =
     (case find (\<lambda>m. movie_id m = movieId) (trackAMovies state) of
        None \<Rightarrow> (None, state)
      | Some movieToRemove \<Rightarrow>
          (let newTrackAMovies = filter (\<lambda>m. movie_id m \<noteq> movieId) (trackAMovies state);
               newExcludedIds = excludedIds state @ [movieId];
               request = \<lparr> target_runtime = targetRuntime (time (filters state)) newTrackAMovies,
                           excluded_ids = newExcludedIds,
                           track = ''a'',
                           rr_genres = genres (filters state),
                           rr_exclude_adult = excludeAdult (filters state) \<rparr>;
               removed = state\<lparr> trackAMovies := newTrackAMovies,
                                recommendedMovies := newTrackAMovies,
                                excludedIds := newExcludedIds \<rparr>
           in (Some request,
               case postReRecommendSingle server request of
                 Inl err \<Rightarrow> responseInterceptor err removed
               | Inr response \<Rightarrow>
                   (case movie response of
                      None \<Rightarrow> removed
                    | Some v2Movie \<Rightarrow>
                        if success response then
                          (let newMovie = convertV2MovieToMovie getFullYear v2Movie
                           in removed\<lparr> trackAMovies := trackAMovies removed @ [newMovie],
                                       recommendedMovies := trackAMovies removed @ [newMovie],
                                       trackATotalRuntime :=
                                         remainingRuntime newTrackAMovies + runtimeOr0 newMovie,
                                       excludedIds := excludedIds removed @ [movie_id newMovie] \<rparr>)
                        else removed))))"

definition removePopularMovie2 ::
  "(ReRecommendRequest \<Rightarrow> AxiosError + ReRecommendResponse) \<Rightarrow> (string \<Rightarrow> int option)
     \<Rightarrow> int \<Rightarrow> MovieState \<Rightarrow> ReRecommendRequest option \<times> MovieState" where
  "removePopularMovie2 server getFullYear movieId state =
     (case find (\<lambda>m. movie_id m = movieId) (trackBMovies state) of
        None \<Rightarrow> (None, state)
      | Some movieToRemove \<Rightarrow>
          (let newTrackBMovies = filter (\<lambda>m. movie_id m \<noteq> movieId) (trackBMovies state);
               newExcludedIds = excludedIds state @ [movieId];
               request = \<lparr> target_runtime = targetRuntime (time (filters state)) newTrackBMovies,
                           excluded_ids = newExcludedIds,
                           track = ''b'',
                           rr_genres = genres (filters state),
                           rr_exclude_adult = excludeAdult (filters state) \<rparr>;
               removed = state\<lparr> trackBMovies := newTrackBMovies,
                                popularMovies := newTrackBMovies,
                                excludedIds := newExcludedIds \<rparr>
           in (Some request,
               case postReRecommendSingle server request of
                 Inl err \<Rightarrow> responseInterceptor err removed
               | Inr response \<Rightarrow>
                   (case movie response of
                      None \<Rightarrow> removed
                    | Some v2Movie \<Rightarrow>
                        if success response then
                          (let newMovie = convertV2MovieToMovie getFullYear v2Movie
                           in removed\<lparr> trackBMovies := trackBMovies removed @ [newMovie],
                                       popularMovies := trackBMovies removed @ [newMovie],
                                       trackBTotalRuntime :=
                                         remainingRuntime newTrackBMovies + runtimeOr0 newMovie,
                                       excludedIds := excludedIds removed @ [movie_id newMovie] \<rparr>)
                        else removed))))"

subsection \<open>Properties as predicates\<close>

text \<open>The sum of the running times of a track's items, a missing one counting \<open>0\<close>.\<close>

definition sumRuntime :: "Movie list \<Rightarrow> int" where
  "sumRuntime ms = sum_list (map runtimeOr0 ms)"

text \<open>Each total-runtime field equals the sum over the items of its track.\<close>

definition totalsMatch :: "MovieState \<Rightarrow> bool" where
  "totalsMatch state =
     (trackATotalRuntime state = sumRuntime (trackAMovies state)
      \<and> trackBTotalRuntime state = sumRuntime (trackBMovies state))"

text \<open>The legacy fields mirror the tracks.\<close>

definition aliasesMirror :: "MovieState \<Rightarrow> bool" where
  "aliasesMirror state =
     (recommendedMovies state = trackAMovies state
      \<and> popularMovies state = trackBMovies state)"

text \<open>
  A replacement call failed: it threw, or the response says \<open>success: false\<close>.
\<close>

definition replyFailed :: "AxiosError + ReRecommendResponse \<Rightarrow> bool" where
  "replyFailed reply = (case reply of Inl err \<Rightarrow> True | Inr response \<Rightarrow> \<not> success response)"

text \<open>A call was rejected with HTTP status 401.\<close>

definition replyUnauthorized :: "AxiosError + ReRecommendResponse \<Rightarrow> bool" where
  "replyUnauthorized reply =
     (case reply of Inl err \<Rightarrow> status err = Some 401 | Inr response \<Rightarrow> False)"

text \<open>
  The replacement item a reply carries: the \<open>movie\<close> of a response that says
  \<open>success: true\<close>.
\<close>

definition replyOffers :: "AxiosError + ReRecommendResponse \<Rightarrow> RecommendedMovieV2 option" where
  "replyOffers reply =
     (case reply of
        Inl err \<Rightarrow> None
      | Inr response \<Rightarrow> if success response then movie response else None)"

text \<open>The id \<open>movieId\<close> is in the track at index \<open>i\<close> and at no other index.\<close>

definition presentOnlyAt :: "nat \<Rightarrow> int \<Rightarrow> Movie list \<Rightarrow> bool" where
  "presentOnlyAt i movieId ms =
     (i < length ms \<and> movie_id (ms ! i) = movieId
      \<and> movieId \<notin> movie_id ` set (take i ms)
      \<and> movieId \<notin> movie_id ` set (drop (Suc i) ms))"

text \<open>
  The budget text \<open>"HH:MM"\<close> of \<open>h\<close> hours and \<open>m\<close> minutes, two decimal digits each
  (for \<open>h\<close> and \<open>m\<close> below \<open>100\<close>).
\<close>

definition twoDigits :: "nat \<Rightarrow> string" where
  "twoDigits n = [char_of (48 + n div 10), char_of (48 + n mod 10)]"

definition hhmm :: "nat \<Rightarrow> nat \<Rightarrow> string" where
  "hhmm h m = twoDigits h @ '':'' @ twoDigits m"

subsection \<open>Scenario data\<close>

text \<open>
  The inputs of the worked scenarios: Track A holds \<open>X\<close> (90 minutes) and \<open>Y\<close>
  (30 minutes), the budget is \<open>"02:30"\<close>, and both ids are on the exclusion list, as
  after a load.
\<close>

definition movieX :: Movie where
  "movieX = \<lparr> movie_id = 1, tmdb_id = Some 1, title = ''X'', movie_genres = [''Action''],
              year = None, rating = 7, poster = [], description = [],
              runtime = Some 90, popular = False, watched = False \<rparr>"

definition movieY :: Movie where
  "movieY = \<lparr> movie_id = 2, tmdb_id = Some 2, title = ''Y'', movie_genres = [''Action''],
              year = None, rating = 6, poster = [], description = [],
              runtime = Some 30, popular = False, watched = False \<rparr>"

definition scenarioState :: MovieState where
  "scenarioState =
     \<lparr> filters = \<lparr> time = ''02:30'', genres = [''Action''], excludeAdult = True \<rparr>,
       userId = Some 7,
       trackAMovies = [movieX, movieY],
       trackATotalRuntime = 120,
       trackALabel = defaultTrackALabel,
       trackBMovies = [],
       trackBTotalRuntime = 0,
       trackBLabel = defaultTrackBLabel,
       excludedIds = [1, 2],
       recommendedMovies = [movieX, movieY],
       popularMovies = [],
       detailMovieId = None,
       isLoading = False,
       error = None \<rparr>"

text \<open>The same state with the two items in Track B.\<close>

definition scenarioStateB :: MovieState where
  "scenarioStateB =
     scenarioState\<lparr> trackAMovies := [], trackATotalRuntime := 0, recommendedMovies := [],
                    trackBMovies := [movieX, movieY], trackBTotalRuntime := 120,
                    popularMovies := [movieX, movieY] \<rparr>"

text \<open>A host whose \<open>Date\<close> parses nothing.\<close>

definition noYear :: "string \<Rightarrow> int option" where
  "noYear d = None"

text \<open>A server item \<open>Z\<close> of 55 minutes.\<close>

definition itemZ :: RecommendedMovieV2 where
  "itemZ = \<lparr> v2_tmdb_id = 3, v2_title = ''Z'', v2_genres = [''Action''],
             v2_release_date = None, v2_vote_average = 8, v2_poster_path = None,
             v2_overview = [], v2_runtime = 55 \<rparr>"

text \<open>Backends for the replacement call: one that has no candidate, one that cannot
  be reached, one that rejects the session with status 401, one that offers \<open>Z\<close>.\<close>

definition serverExpired :: "ReRecommendRequest \<Rightarrow> AxiosError + ReRecommendResponse" where
  "serverExpired request = Inl \<lparr> code = Some ''ERR_BAD_REQUEST'', status = Some 401 \<rparr>"

definition serverNoCandidate :: "ReRecommendRequest \<Rightarrow> AxiosError + ReRecommendResponse" where
  "serverNoCandidate request = Inr \<lparr> success = False, movie = None, message = Some ''none'' \<rparr>"

definition serverDown :: "ReRecommendRequest \<Rightarrow> AxiosError + ReRecommendResponse" where
  "serverDown request = Inl \<lparr> code = Some ''ERR_NETWORK'', status = None \<rparr>"

definition serverOffersZ :: "ReRecommendRequest \<Rightarrow> AxiosError + ReRecommendResponse" where
  "serverOffersZ request = Inr \<lparr> success = True, movie = Some itemZ, message = None \<rparr>"

text \<open>Backends for the load call: one that cannot be reached, and one whose response
  reports 100 minutes for a Track A that holds \<open>Z\<close> alone.\<close>

definition loadDown :: "RecommendRequest \<Rightarrow> AxiosError + RecommendResponseV2" where
  "loadDown request = Inl \<lparr> code = Some ''ERR_NETWORK'', status = None \<rparr>"

definition responseZ :: RecommendResponseV2 where
  "responseZ =
     \<lparr> track_a = \<lparr> movies = [itemZ], total_runtime = 100, label = ''A'' \<rparr>,
       track_b = \<lparr> movies = [], total_runtime = 0, label = ''B'' \<rparr> \<rparr>"

definition loadReturnsZ :: "RecommendRequest \<Rightarrow> AxiosError + RecommendResponseV2" where
  "loadReturnsZ request = Inr responseZ"

text \<open>The requests the replacement of \<open>Y\<close> sends, for Track A and for Track B.\<close>

definition requestA :: ReRecommendRequest where
  "requestA = \<lparr> target_runtime = Some 60, excluded_ids = [1, 2, 2], track = ''a'',
                 rr_genres = [''Action''], rr_exclude_adult = True \<rparr>"

definition requestB :: ReRecommendRequest where
  "requestB = \<lparr> target_runtime = Some 60, excluded_ids = [1, 2, 2], track = ''b'',
                 rr_genres = [''Action''], rr_exclude_adult = True \<rparr>"

text \<open>
  The scenario state after the response interceptor has handled a 401: no user, default
  filters, empty tracks and an empty exclusion list.
\<close>

definition loggedOutState :: MovieState where
  "loggedOutState =
     \<lparr> filters = \<lparr> time = ''00:00'', genres = [], excludeAdult = False \<rparr>,
       userId = None,
       trackAMovies = [],
       trackATotalRuntime = 0,
       trackALabel = defaultTrackALabel,
       trackBMovies = [],
       trackBTotalRuntime = 0,
       trackBLabel = defaultTrackBLabel,
       excludedIds = [],
       recommendedMovies = [],
       popularMovies = [],
       detailMovieId = None,
       isLoading = False,
       error = None \<rparr>"

text \<open>A state that is loading and carries an error message.\<close>

definition busyState :: MovieState where
  "busyState = scenarioState\<lparr> isLoading := True, error := Some msgLoadFailed \<rparr>"

text \<open>A Track A in which the id \<open>2\<close> occurs twice.\<close>

definition twiceState :: MovieState where
  "twiceState =
     scenarioState\<lparr> trackAMovies := [movieY, movieX, movieY],
                    recommendedMovies := [movieY, movieX, movieY],
                    trackATotalRuntime := 150 \<rparr>"

section \<open>Library facts\<close>

lemma findIndex_None_iff: "findIndex P xs = None \<longleftrightarrow> (\<forall>x \<in> set xs. \<not> P x)"
  by (induction xs) auto

lemma findIndex_absent:
  "movieId \<notin> movie_id ` set ms \<Longrightarrow> findIndex (\<lambda>m. movie_id m = movieId) ms = None"
  by (auto simp: findIndex_None_iff)

lemma findIndex_append:
  "\<forall>y \<in> set a. \<not> P y \<Longrightarrow> P x \<Longrightarrow> findIndex P (a @ x # b) = Some (length a)"
  by (induction a) auto

lemma findIndex_Some_present:
  "findIndex P xs = Some i \<Longrightarrow> i < length xs \<and> P (xs ! i)"
proof (induction xs arbitrary: i)
  case Nil
  then show ?case by simp
next
  case (Cons x xs)
  then show ?case by (cases "P x") auto
qed

lemma foldl_add_runtime:
  "foldl (\<lambda>sum m. sum + runtimeOr0 m) a ms = a + sum_list (map runtimeOr0 ms)"
  by (induction ms arbitrary: a) simp_all

lemma remainingRuntime_sum: "remainingRuntime ms = sumRuntime ms"
  by (simp add: remainingRuntime_def sumRuntime_def foldl_add_runtime)

lemma sumRuntime_splice: "sumRuntime (splice i m ms) = sumRuntime ms + runtimeOr0 m"
proof -
  have "sumRuntime (take i ms) + sumRuntime (drop i ms) = sumRuntime (take i ms @ drop i ms)"
    unfolding sumRuntime_def by (simp only: map_append sum_list_append)
  then have "sumRuntime (take i ms) + sumRuntime (drop i ms) = sumRuntime ms"
    by (simp only: append_take_drop_id)
  moreover have "sumRuntime (splice i m ms)
                   = sumRuntime (take i ms) + (runtimeOr0 m + sumRuntime (drop i ms))"
    by (simp add: sumRuntime_def splice_def)
  ultimately show ?thesis by simp
qed

text \<open>
  When the id occurs at position \<open>i\<close> only, \<open>findIndex\<close> returns \<open>i\<close>, and
  dropping the items with that id, then inserting at \<open>i\<close>, overwrites position \<open>i\<close>.
\<close>

lemma presentOnlyAt_split:
  assumes "presentOnlyAt i movieId ms"
  shows "ms = take i ms @ ms ! i # drop (Suc i) ms"
    and "\<forall>m \<in> set (take i ms). movie_id m \<noteq> movieId"
    and "\<forall>m \<in> set (drop (Suc i) ms). movie_id m \<noteq> movieId"
    and "movie_id (ms ! i) = movieId"
    and "i < length ms"
proof -
  from assms show "i < length ms" and "movie_id (ms ! i) = movieId"
    by (simp_all add: presentOnlyAt_def)
  then show "ms = take i ms @ ms ! i # drop (Suc i) ms"
    by (simp add: id_take_nth_drop)
  from assms have "movieId \<notin> movie_id ` set (take i ms)"
    by (simp add: presentOnlyAt_def)
  then show "\<forall>m \<in> set (take i ms). movie_id m \<noteq> movieId"
    by blast
  from assms have "movieId \<notin> movie_id ` set (drop (Suc i) ms)"
    by (simp add: presentOnlyAt_def)
  then show "\<forall>m \<in> set (drop (Suc i) ms). movie_id m \<noteq> movieId"
    by blast
qed

lemma presentOnlyAt_findIndex:
  assumes "presentOnlyAt i movieId ms"
  shows "findIndex (\<lambda>m. movie_id m = movieId) ms = Some i"
proof -
  note s = presentOnlyAt_split [OF assms]
  have "findIndex (\<lambda>m. movie_id m = movieId) (take i ms @ ms ! i # drop (Suc i) ms)
          = Some (length (take i ms))"
    using s(2) s(4) by (intro findIndex_append) auto
  moreover have "length (take i ms) = i"
    using s(5) by simp
  ultimately show ?thesis
    using s(1) by simp
qed

lemma presentOnlyAt_filter:
  assumes "presentOnlyAt i movieId ms"
  shows "filter (\<lambda>m. movie_id m \<noteq> movieId) ms = take i ms @ drop (Suc i) ms"
proof -
  note s = presentOnlyAt_split [OF assms]
  have "filter (\<lambda>m. movie_id m \<noteq> movieId) (take i ms @ ms ! i # drop (Suc i) ms)
          = take i ms @ drop (Suc i) ms"
    using s(2) s(3) s(4) by (simp add: filter_id_conv)
  then show ?thesis
    using s(1) by simp
qed

lemma presentOnlyAt_splice:
  assumes "presentOnlyAt i movieId ms"
  shows "splice i y (filter (\<lambda>m. movie_id m \<noteq> movieId) ms) = ms[i := y]"
proof -
  have len: "i < length ms"
    using assms by (simp add: presentOnlyAt_def)
  have "splice i y (take i ms @ drop (Suc i) ms) = take i ms @ y # drop (Suc i) ms"
    using len by (simp add: splice_def)
  also have "\<dots> = ms[i := y]"
    using len by (simp add: upd_conv_take_nth_drop)
  finally show ?thesis
    by (simp add: presentOnlyAt_filter [OF assms])
qed

text \<open>The conversion of the budget text.\<close>

lemma split_str_no_sep: "sep \<notin> set s \<Longrightarrow> split_str sep s = [s]"
  by (induction s) auto

lemma split_str_first:
  "sep \<notin> set a \<Longrightarrow> split_str sep (a @ sep # b) = a # split_str sep b"
  by (induction a) auto

lemma isDigit_not_colon: "isDigit c \<Longrightarrow> c \<noteq> CHR '':''"
  by (auto simp: isDigit_def)

lemma digits_no_colon: "list_all isDigit s \<Longrightarrow> CHR '':'' \<notin> set s"
  by (auto simp: list_all_iff dest: isDigit_not_colon)

lemma isDigit_not_space: "isDigit c \<Longrightarrow> \<not> isSpace c"
  by (auto simp: isDigit_def isSpace_def)

lemma dropWhile_space_digits: "list_all isDigit s \<Longrightarrow> dropWhile isSpace s = s"
  by (cases s) (simp_all add: isDigit_not_space)

lemma trim_digits:
  assumes "list_all isDigit s"
  shows "trim s = s"
proof -
  have "list_all isDigit (rev s)"
    using assms by (simp add: list_all_iff)
  then have "dropWhile isSpace (rev s) = rev s"
    by (rule dropWhile_space_digits)
  then show ?thesis
    using assms by (simp add: trim_def dropWhile_space_digits)
qed

lemma isDigit_not_sign: "isDigit c \<Longrightarrow> c \<noteq> CHR ''-'' \<and> c \<noteq> CHR ''+''"
  by (auto simp: isDigit_def)

lemma Number_digits:
  assumes "list_all isDigit s" and "decimal s \<le> 2 ^ 53"
  shows "Number s = Some (decimal s)"
proof (cases s)
  case Nil
  then show ?thesis
    by (simp add: Number_def trim_def decimal_def)
next
  case (Cons c cs)
  with assms(1) have "isDigit c"
    by simp
  then have "c \<noteq> CHR ''-''" and "c \<noteq> CHR ''+''"
    by (simp_all add: isDigit_not_sign)
  moreover have "trim s = c # cs"
    using assms(1) Cons by (simp add: trim_digits)
  moreover have "digitsValue (c # cs) = Some (decimal s)"
    using assms Cons by (simp add: digitsValue_def)
  ultimately show ?thesis
    by (simp add: Number_def)
qed

lemma userInputTime_digits:
  assumes "list_all isDigit a" and "list_all isDigit b"
    and "decimal a \<le> 2 ^ 53" and "decimal b \<le> 2 ^ 53"
  shows "userInputTime (a @ '':'' @ b) = Some (decimal a * 60 + decimal b)"
proof -
  have "split_str CHR '':'' (a @ CHR '':'' # b) = [a, b]"
    using assms by (simp add: split_str_first split_str_no_sep digits_no_colon)
  then show ?thesis
    using assms by (simp add: userInputTime_def Number_digits)
qed

lemma twoDigits_digits: "n < 100 \<Longrightarrow> list_all isDigit (twoDigits n)"
proof -
  assume "n < 100"
  then have "n div 10 < 10" by simp
  moreover have "n mod 10 < 10" by simp
  ultimately show ?thesis
    by (simp add: twoDigits_def isDigit_def)
qed

lemma decimal_twoDigits: "n < 100 \<Longrightarrow> decimal (twoDigits n) = int n"
proof -
  assume "n < 100"
  then have "n div 10 < 10" by simp
  moreover have "n mod 10 < 10" by simp
  moreover have "10 * int (n div 10) + int (n mod 10) = int n"
    by presburger
  ultimately show ?thesis
    by (simp add: twoDigits_def decimal_def digitValue_def)
qed

lemma userInputTime_hhmm:
  assumes "h < 100" and "m < 100"
  shows "userInputTime (hhmm h m) = Some (int h * 60 + int m)"
proof -
  have "decimal (twoDigits h) \<le> 2 ^ 53" and "decimal (twoDigits m) \<le> 2 ^ 53"
    using assms by (simp_all add: decimal_twoDigits)
  then have "userInputTime (twoDigits h @ '':'' @ twoDigits m)
               = Some (decimal (twoDigits h) * 60 + decimal (twoDigits m))"
    using assms by (intro userInputTime_digits twoDigits_digits)
  then show ?thesis
    using assms by (simp only: hhmm_def decimal_twoDigits)
qed

section \<open>Evaluation at the scenario data\<close>

lemmas scenario_defs =
  scenarioState_def scenarioStateB_def twiceState_def busyState_def movieX_def movieY_def
  itemZ_def responseZ_def requestA_def requestB_def noYear_def
  serverNoCandidate_def serverDown_def serverExpired_def serverOffersZ_def
  loadDown_def loadReturnsZ_def

lemma userInputTime_0230: "userInputTime ''02:30'' = Some 150"
proof -
  have "hhmm 2 30 = ''02:30''"
    by code_simp
  then show ?thesis
    using userInputTime_hhmm [of 2 30] by simp
qed

lemma sent_A: "fst (removeRecommendedMovie server getFullYear 2 scenarioState) = Some requestA"
  by (simp add: removeRecommendedMovie_def scenario_defs Let_def targetRuntime_def
      userInputTime_0230 remainingRuntime_def runtimeOr0_def)

lemma sent_B: "fst (removePopularMovie server getFullYear 2 scenarioStateB) = Some requestB"
  by (simp add: removePopularMovie_def scenario_defs Let_def targetRuntime_def
      userInputTime_0230 remainingRuntime_def runtimeOr0_def)

lemma removeRecommendedMovie_noCandidate:
  "removeRecommendedMovie serverNoCandidate noYear 2 scenarioState = (Some requestA, scenarioState)"
  by (simp add: removeRecommendedMovie_def scenario_defs Let_def targetRuntime_def
      userInputTime_0230 remainingRuntime_def runtimeOr0_def postReRecommendSingle_def
      responseInterceptor_def)

lemma removeRecommendedMovie_down:
  "removeRecommendedMovie serverDown noYear 2 scenarioState = (Some requestA, scenarioState)"
  by (simp add: removeRecommendedMovie_def scenario_defs Let_def targetRuntime_def
      userInputTime_0230 remainingRuntime_def runtimeOr0_def postReRecommendSingle_def
      responseInterceptor_def)

lemma removePopularMovie_down:
  "removePopularMovie serverDown noYear 2 scenarioStateB = (Some requestB, scenarioStateB)"
  by (simp add: removePopularMovie_def scenario_defs Let_def targetRuntime_def
      userInputTime_0230 remainingRuntime_def runtimeOr0_def postReRecommendSingle_def
      responseInterceptor_def)

lemma sent_A2: "fst (removeRecommendedMovie2 server getFullYear 2 scenarioState) = Some requestA"
  by (simp add: removeRecommendedMovie2_def scenario_defs Let_def targetRuntime_def
      userInputTime_0230 remainingRuntime_def runtimeOr0_def)

lemma sent_B2: "fst (removePopularMovie2 server getFullYear 2 scenarioStateB) = Some requestB"
  by (simp add: removePopularMovie2_def scenario_defs Let_def targetRuntime_def
      userInputTime_0230 remainingRuntime_def runtimeOr0_def)

lemma scenario_logged_out:
  "resetFilters (setUserId None scenarioState) = loggedOutState"
  "resetFilters (setUserId None scenarioStateB) = loggedOutState"
  by (simp_all add: resetFilters_def setUserId_def scenarioState_def scenarioStateB_def
      loggedOutState_def)

lemma messages_distinct:
  "msgNetwork \<noteq> msgLoadFailed" "msgLoginRequired \<noteq> msgLoadFailed"
  "msgServerError \<noteq> msgLoadFailed" "msgNetwork \<noteq> msgLoginRequired"
  "msgNetwork \<noteq> msgServerError" "msgLoginRequired \<noteq> msgServerError"
  by (simp_all add: msgNetwork_def msgLoadFailed_def msgLoginRequired_def msgServerError_def)

section \<open>The first definition of the store: failed load and filter actions\<close>

text \<open>
  When the load call throws, the first definition clears \<open>isLoading\<close>, stores the
  message of the failure and empties both tracks and both legacy lists.
\<close>

lemma loadRecommended_failure:
  assumes "postRecommendationsV2 server (filters state) = Inl err"
  shows "isLoading (loadRecommended server getFullYear state) = False"
    and "error (loadRecommended server getFullYear state) = Some (errorMessage err)"
    and "trackAMovies (loadRecommended server getFullYear state) = []"
    and "trackBMovies (loadRecommended server getFullYear state) = []"
  using assms by (simp_all add: loadRecommended_def Let_def)

text \<open>
  When the status of the failure is 401, the response interceptor has reset the store
  before the \<open>catch\<close> block writes: the user is gone, and filters, totals, labels and
  \<open>excludedIds\<close> are the initial ones.
\<close>

lemma loadRecommended_failure_401:
  assumes "postRecommendationsV2 server (filters state) = Inl err" and "status err = Some 401"
  shows "loadRecommended server getFullYear state
           = (resetFilters (setUserId None state))
               \<lparr> isLoading := False, error := Some (errorMessage err) \<rparr>"
  using assms
  by (simp add: loadRecommended_def Let_def responseInterceptor_def resetFilters_def
      setUserId_def)

lemma loadRecommended_failure_other:
  assumes "postRecommendationsV2 server (filters state) = Inl err" and "status err \<noteq> Some 401"
  shows "loadRecommended server getFullYear state
           = state\<lparr> isLoading := False, error := Some (errorMessage err),
                    trackAMovies := [], trackBMovies := [],
                    recommendedMovies := [], popularMovies := [] \<rparr>"
  using assms
  by (simp add: loadRecommended_def Let_def responseInterceptor_def)

text \<open>
  The \<open>catch\<close> block does not write the total running times: after a load of the
  scenario state that failed for an unreachable network, Track A is empty and its total
  is still 120.
\<close>

lemma loadRecommended_failure_totals:
  "trackAMovies (loadRecommended loadDown noYear scenarioState) = []
   \<and> trackATotalRuntime (loadRecommended loadDown noYear scenarioState) = 120"
  by (simp add: loadRecommended_def postRecommendationsV2_def loadDown_def Let_def
      scenarioState_def responseInterceptor_def)

text \<open>
  The message depends on the failure alone: unreachable network first, then status 401,
  then status 500, the generic message otherwise.
\<close>

lemma errorMessage_network: "code err = Some ''ERR_NETWORK'' \<Longrightarrow> errorMessage err = msgNetwork"
  by (simp add: errorMessage_def)

lemma errorMessage_401:
  "code err \<noteq> Some ''ERR_NETWORK'' \<Longrightarrow> status err = Some 401
     \<Longrightarrow> errorMessage err = msgLoginRequired"
  by (simp add: errorMessage_def)

lemma errorMessage_500:
  "code err \<noteq> Some ''ERR_NETWORK'' \<Longrightarrow> status err = Some 500
     \<Longrightarrow> errorMessage err = msgServerError"
  by (simp add: errorMessage_def)

lemma errorMessage_generic:
  "code err \<noteq> Some ''ERR_NETWORK'' \<Longrightarrow> status err \<noteq> Some 401 \<Longrightarrow> status err \<noteq> Some 500
     \<Longrightarrow> errorMessage err = msgLoadFailed"
  by (simp add: errorMessage_def)

text \<open>
  Each filter action of the first definition writes its own field of \<open>filters\<close>, keeps
  the other two, and empties \<open>excludedIds\<close>.
\<close>

lemma filter_neq_removeAll: "filter (\<lambda>g. g \<noteq> x) xs = removeAll x xs"
  by (induction xs) auto

lemma setTime_effect:
  "filters (setTime t state) = (filters state)\<lparr> time := t \<rparr>"
  "excludedIds (setTime t state) = []"
  by (simp_all add: setTime_def)

lemma toggleGenre_effect:
  "time (filters (toggleGenre genre state)) = time (filters state)"
  "excludeAdult (filters (toggleGenre genre state)) = excludeAdult (filters state)"
  "genre \<in> set (genres (filters state))
     \<Longrightarrow> genres (filters (toggleGenre genre state)) = removeAll genre (genres (filters state))"
  "genre \<notin> set (genres (filters state))
     \<Longrightarrow> genres (filters (toggleGenre genre state)) = genres (filters state) @ [genre]"
  "excludedIds (toggleGenre genre state) = []"
  by (simp_all add: toggleGenre_def filter_neq_removeAll)

lemma toggleExcludeAdult_effect:
  "filters (toggleExcludeAdult state)
     = (filters state)\<lparr> excludeAdult := \<not> excludeAdult (filters state) \<rparr>"
  "excludedIds (toggleExcludeAdult state) = []"
  by (simp_all add: toggleExcludeAdult_def)

section \<open>The second definition of the store\<close>

text \<open>
  The filter actions of the second definition leave \<open>excludedIds\<close> as it was. Its
  \<open>catch\<close> block of the load writes \<open>isLoading\<close> and the generic message, whatever
  the failure, on top of what the response interceptor did. The replacement actions
  take the item out before the call. When the call is answered with \<open>success: false\<close>,
  the track stays without the item, the removed id stays on \<open>excludedIds\<close>, and the
  total running time is the one from before the removal.
\<close>

lemma filter_actions2_effect:
  "setTime2 t state = state\<lparr> filters := (filters state)\<lparr> time := t \<rparr> \<rparr>"
  "excludedIds (setTime2 t state) = excludedIds state"
  "excludedIds (toggleGenre2 genre state) = excludedIds state"
  "excludedIds (toggleExcludeAdult2 state) = excludedIds state"
  by (simp_all add: setTime2_def toggleGenre2_def toggleExcludeAdult2_def)

lemma loadRecommended2_failure:
  assumes "postRecommendationsV2 server (filters state) = Inl err"
  shows "loadRecommended2 server getFullYear state
           = (responseInterceptor err state)\<lparr> isLoading := False, error := Some msgLoadFailed \<rparr>"
  using assms
  by (simp add: loadRecommended2_def Let_def responseInterceptor_def resetFilters_def
      setUserId_def)

lemma removeRecommendedMovie2_failure:
  "snd (removeRecommendedMovie2 serverNoCandidate noYear 2 scenarioState)
     = scenarioState\<lparr> trackAMovies := [movieX], recommendedMovies := [movieX],
                      excludedIds := [1, 2, 2] \<rparr>"
  "trackATotalRuntime (snd (removeRecommendedMovie2 serverNoCandidate noYear 2 scenarioState))
     = 120"
  by (simp_all add: removeRecommendedMovie2_def scenario_defs Let_def postReRecommendSingle_def)

section \<open>The claims\<close>

text \<open>
  C1, as the claim states it, fails. In the scenario state the replacement of \<open>Y\<close> is
  answered with \<open>success: false\<close>, and in a second run the call throws: both replies
  count as failed, and after each Track A still holds \<open>X\<close> and \<open>Y\<close>. The item is not
  removed and the track has not one element fewer.
\<close>

theorem replace_failure_counterexample:
  "fst (removeRecommendedMovie serverNoCandidate noYear 2 scenarioState) = Some requestA
   \<and> fst (removeRecommendedMovie serverDown noYear 2 scenarioState) = Some requestA
   \<and> replyFailed (serverNoCandidate requestA) \<and> replyFailed (serverDown requestA)
   \<and> trackAMovies (snd (removeRecommendedMovie serverNoCandidate noYear 2 scenarioState))
       = [movieX, movieY]
   \<and> trackAMovies (snd (removeRecommendedMovie serverDown noYear 2 scenarioState))
       = [movieX, movieY]"
proof -
  have "trackAMovies scenarioState = [movieX, movieY]"
    by (simp add: scenarioState_def)
  then show ?thesis
    by (simp add: removeRecommendedMovie_noCandidate removeRecommendedMovie_down
        replyFailed_def serverNoCandidate_def serverDown_def)
qed

text \<open>
  C1, amended. The call of a replacement action (\<open>removeRecommendedMovie\<close> for
  Track A, \<open>removePopularMovie\<close> for Track B) is answered with \<open>success: false\<close>, or
  it throws. The action itself then writes nothing more to the store and inserts
  nothing. If the call threw with HTTP status 401, the response interceptor has logged
  the user out, and the state afterwards is the state at the call with \<open>userId\<close>
  cleared and \<open>resetFilters\<close> applied. For every other failure:
  \<^item> in the first definition of the store (the cited lines) the state afterwards is the
    state at the call: the item is still in its track at its index, and the track, its
    total running time and \<open>excludedIds\<close> are unchanged;
  \<^item> in the second definition of the store the state afterwards is the one after the
    removal: the items with that id are out of the track and of its legacy list, the
    removed id is appended to \<open>excludedIds\<close>, and everything else, the total running
    time of the track included, is as it was at the call.
\<close>

theorem replace_failure_state:
  "(fst (removeRecommendedMovie server getFullYear movieId state) = Some request
      \<longrightarrow> replyFailed (server request)
      \<longrightarrow> snd (removeRecommendedMovie server getFullYear movieId state)
            = (if replyUnauthorized (server request)
               then resetFilters (setUserId None state) else state))
   \<and> (fst (removePopularMovie server getFullYear movieId state) = Some request
      \<longrightarrow> replyFailed (server request)
      \<longrightarrow> snd (removePopularMovie server getFullYear movieId state)
            = (if replyUnauthorized (server request)
               then resetFilters (setUserId None state) else state))
   \<and> (fst (removeRecommendedMovie2 server getFullYear movieId state) = Some request
      \<longrightarrow> replyFailed (server request)
      \<longrightarrow> snd (removeRecommendedMovie2 server getFullYear movieId state)
            = (if replyUnauthorized (server request)
               then resetFilters (setUserId None state)
               else state\<lparr> trackAMovies :=
                             filter (\<lambda>m. movie_id m \<noteq> movieId) (trackAMovies state),
                           recommendedMovies :=
                             filter (\<lambda>m. movie_id m \<noteq> movieId) (trackAMovies state),
                           excludedIds := excludedIds state @ [movieId] \<rparr>))
   \<and> (fst (removePopularMovie2 server getFullYear movieId state) = Some request
      \<longrightarrow> replyFailed (server request)
      \<longrightarrow> snd (removePopularMovie2 server getFullYear movieId state)
            = (if replyUnauthorized (server request)
               then resetFilters (setUserId None state)
               else state\<lparr> trackBMovies :=
                             filter (\<lambda>m. movie_id m \<noteq> movieId) (trackBMovies state),
                           popularMovies :=
                             filter (\<lambda>m. movie_id m \<noteq> movieId) (trackBMovies state),
                           excludedIds := excludedIds state @ [movieId] \<rparr>))"
proof (intro conjI impI)
  assume "fst (removeRecommendedMovie server getFullYear movieId state) = Some request"
    and "replyFailed (server request)"
  then show "snd (removeRecommendedMovie server getFullYear movieId state)
            = (if replyUnauthorized (server request)
               then resetFilters (setUserId None state) else state)"
    by (auto simp: removeRecommendedMovie_def Let_def postReRecommendSingle_def
        replyFailed_def replyUnauthorized_def responseInterceptor_def
        split: option.splits sum.splits)
next
  assume "fst (removePopularMovie server getFullYear movieId state) = Some request"
    and "replyFailed (server request)"
  then show "snd (removePopularMovie server getFullYear movieId state)
            = (if replyUnauthorized (server request)
               then resetFilters (setUserId None state) else state)"
    by (auto simp: removePopularMovie_def Let_def postReRecommendSingle_def
        replyFailed_def replyUnauthorized_def responseInterceptor_def
        split: option.splits sum.splits)
next
  assume "fst (removeRecommendedMovie2 server getFullYear movieId state) = Some request"
    and "replyFailed (server request)"
  then show "snd (removeRecommendedMovie2 server getFullYear movieId state)
            = (if replyUnauthorized (server request)
               then resetFilters (setUserId None state)
               else state\<lparr> trackAMovies :=
                             filter (\<lambda>m. movie_id m \<noteq> movieId) (trackAMovies state),
                           recommendedMovies :=
                             filter (\<lambda>m. movie_id m \<noteq> movieId) (trackAMovies state),
                           excludedIds := excludedIds state @ [movieId] \<rparr>)"
    by (auto simp: removeRecommendedMovie2_def Let_def postReRecommendSingle_def
        replyFailed_def replyUnauthorized_def responseInterceptor_def
        resetFilters_def setUserId_def
        split: option.splits sum.splits)
next
  assume "fst (removePopularMovie2 server getFullYear movieId state) = Some request"
    and "replyFailed (server request)"
  then show "snd (removePopularMovie2 server getFullYear movieId state)
            = (if replyUnauthorized (server request)
               then resetFilters (setUserId None state)
               else state\<lparr> trackBMovies :=
                             filter (\<lambda>m. movie_id m \<noteq> movieId) (trackBMovies state),
                           popularMovies :=
                             filter (\<lambda>m. movie_id m \<noteq> movieId) (trackBMovies state),
                           excludedIds := excludedIds state @ [movieId] \<rparr>)"
    by (auto simp: removePopularMovie2_def Let_def postReRecommendSingle_def
        replyFailed_def replyUnauthorized_def responseInterceptor_def
        resetFilters_def setUserId_def
        split: option.splits sum.splits)
qed

theorem replace_failure_state_witness:
  "fst (removeRecommendedMovie serverNoCandidate noYear 2 scenarioState) = Some requestA
   \<and> replyFailed (serverNoCandidate requestA)
   \<and> snd (removeRecommendedMovie serverNoCandidate noYear 2 scenarioState) = scenarioState
   \<and> fst (removeRecommendedMovie serverExpired noYear 2 scenarioState) = Some requestA
   \<and> replyFailed (serverExpired requestA)
   \<and> snd (removeRecommendedMovie serverExpired noYear 2 scenarioState) = loggedOutState
   \<and> fst (removePopularMovie serverDown noYear 2 scenarioStateB) = Some requestB
   \<and> replyFailed (serverDown requestB)
   \<and> snd (removePopularMovie serverDown noYear 2 scenarioStateB) = scenarioStateB
   \<and> fst (removeRecommendedMovie2 serverNoCandidate noYear 2 scenarioState) = Some requestA
   \<and> snd (removeRecommendedMovie2 serverNoCandidate noYear 2 scenarioState)
       = scenarioState\<lparr> trackAMovies := [movieX], recommendedMovies := [movieX],
                        excludedIds := [1, 2, 2] \<rparr>
   \<and> fst (removePopularMovie2 serverExpired noYear 2 scenarioStateB) = Some requestB
   \<and> replyFailed (serverExpired requestB)
   \<and> snd (removePopularMovie2 serverExpired noYear 2 scenarioStateB) = loggedOutState"
proof -
  have f1: "replyFailed (serverNoCandidate requestA)"
    and u1: "\<not> replyUnauthorized (serverNoCandidate requestA)"
    by (simp_all add: replyFailed_def replyUnauthorized_def serverNoCandidate_def)
  have f2: "replyFailed (serverExpired requestA)" "replyFailed (serverExpired requestB)"
    and u2: "replyUnauthorized (serverExpired requestA)" "replyUnauthorized (serverExpired requestB)"
    by (simp_all add: replyFailed_def replyUnauthorized_def serverExpired_def)
  have f3: "replyFailed (serverDown requestB)"
    and u3: "\<not> replyUnauthorized (serverDown requestB)"
    by (simp_all add: replyFailed_def replyUnauthorized_def serverDown_def)
  have rest: "filter (\<lambda>m. movie_id m \<noteq> 2) (trackAMovies scenarioState) = [movieX]"
    and old: "excludedIds scenarioState @ [2] = [1, 2, 2]"
    by (simp_all add: scenarioState_def movieX_def movieY_def)
  from replace_failure_state [of serverNoCandidate noYear 2 scenarioState requestA]
       sent_A [of serverNoCandidate noYear] f1 u1
  have w1: "snd (removeRecommendedMovie serverNoCandidate noYear 2 scenarioState) = scenarioState"
    by simp
  from replace_failure_state [of serverExpired noYear 2 scenarioState requestA]
       sent_A [of serverExpired noYear] f2(1) u2(1) scenario_logged_out(1)
  have w2: "snd (removeRecommendedMovie serverExpired noYear 2 scenarioState) = loggedOutState"
    by simp
  from replace_failure_state [of serverDown noYear 2 scenarioStateB requestB]
       sent_B [of serverDown noYear] f3 u3
  have w3: "snd (removePopularMovie serverDown noYear 2 scenarioStateB) = scenarioStateB"
    by simp
  from replace_failure_state [of serverNoCandidate noYear 2 scenarioState requestA]
       sent_A2 [of serverNoCandidate noYear] f1 u1 rest old
  have w4: "snd (removeRecommendedMovie2 serverNoCandidate noYear 2 scenarioState)
       = scenarioState\<lparr> trackAMovies := [movieX], recommendedMovies := [movieX],
                        excludedIds := [1, 2, 2] \<rparr>"
    by simp
  from replace_failure_state [of serverExpired noYear 2 scenarioStateB requestB]
       sent_B2 [of serverExpired noYear] f2(2) u2(2) scenario_logged_out(2)
  have w5: "snd (removePopularMovie2 serverExpired noYear 2 scenarioStateB) = loggedOutState"
    by simp
  from w1 w2 w3 w4 w5 f1 f2 f3 sent_A sent_B sent_A2 sent_B2 show ?thesis
    by simp
qed

text \<open>
  C2, at the failing input. The second definition of the store (source lines 460-732)
  is run on the scenario state with a backend that cannot be reached
  (\<open>code = "ERR_NETWORK"\<close>). It stores the generic message, which is not the message
  for an unreachable network, and Track A still holds \<open>X\<close> and \<open>Y\<close>. The first
  definition does what the claim says (lemma \<open>loadRecommended_failure\<close>).
\<close>

theorem loadRecommended2_failure_at_scenario:
  "isLoading (loadRecommended2 loadDown noYear scenarioState) = False
   \<and> error (loadRecommended2 loadDown noYear scenarioState) = Some msgLoadFailed
   \<and> msgLoadFailed \<noteq> msgNetwork
   \<and> trackAMovies (loadRecommended2 loadDown noYear scenarioState) = [movieX, movieY]"
proof -
  have "msgLoadFailed \<noteq> msgNetwork"
    using messages_distinct(1) by simp
  then show ?thesis
    by (simp add: loadRecommended2_def postRecommendationsV2_def loadDown_def Let_def
        scenarioState_def responseInterceptor_def)
qed

text \<open>
  C3, as the claim states it, fails. The scenario state is reloaded from a backend whose
  response reports 100 minutes for a Track A that holds the 55-minute item \<open>Z\<close> alone.
  After the successful load the total-runtime field of Track A is the reported 100, and
  the sum over the items of the track is 55.
\<close>

theorem load_totals_counterexample:
  "postRecommendationsV2 loadReturnsZ (filters scenarioState) = Inr responseZ
   \<and> trackATotalRuntime (loadRecommended loadReturnsZ noYear scenarioState) = 100
   \<and> sumRuntime (trackAMovies (loadRecommended loadReturnsZ noYear scenarioState)) = 55
   \<and> \<not> totalsMatch (loadRecommended loadReturnsZ noYear scenarioState)"
  by (simp add: loadRecommended_def postRecommendationsV2_def loadReturnsZ_def responseZ_def
      itemZ_def Let_def totalsMatch_def sumRuntime_def runtimeOr0_def
      convertV2MovieToMovie_def)

text \<open>
  C3, amended. \<open>resetFilters\<close> makes each track's total-runtime field equal to the sum
  of the running times of the track's items (both are \<open>0\<close>). The three filter actions
  change neither tracks nor totals. A replacement action, whatever the reply, keeps the
  equality of both tracks when it held at the call; when the reply carries a replacement
  item, the field of the replaced track is the sum over the new track even if the
  equality did not hold before. A successful \<open>loadRecommended\<close> stores for each track
  the \<open>total_runtime\<close> that the server reported, next to items whose running times are
  the ones the server sent: the field equals the sum only if the server's figure does.
\<close>

theorem totals_by_action:
  "totalsMatch (resetFilters state)
   \<and> totalsMatch (setTime t state) = totalsMatch state
   \<and> totalsMatch (toggleGenre genre state) = totalsMatch state
   \<and> totalsMatch (toggleExcludeAdult state) = totalsMatch state
   \<and> (totalsMatch state
        \<longrightarrow> totalsMatch (snd (removeRecommendedMovie server getFullYear movieId state))
          \<and> totalsMatch (snd (removePopularMovie server getFullYear movieId state)))
   \<and> (fst (removeRecommendedMovie server getFullYear movieId state) = Some request
        \<longrightarrow> replyOffers (server request) = Some v2Movie
        \<longrightarrow> trackATotalRuntime (snd (removeRecommendedMovie server getFullYear movieId state))
            = sumRuntime (trackAMovies
                (snd (removeRecommendedMovie server getFullYear movieId state))))
   \<and> (fst (removePopularMovie server getFullYear movieId state) = Some request
        \<longrightarrow> replyOffers (server request) = Some v2Movie
        \<longrightarrow> trackBTotalRuntime (snd (removePopularMovie server getFullYear movieId state))
            = sumRuntime (trackBMovies
                (snd (removePopularMovie server getFullYear movieId state))))
   \<and> (postRecommendationsV2 loader (filters state) = Inr result
        \<longrightarrow> trackATotalRuntime (loadRecommended loader getFullYear state)
              = total_runtime (track_a result)
          \<and> trackBTotalRuntime (loadRecommended loader getFullYear state)
              = total_runtime (track_b result)
          \<and> sumRuntime (trackAMovies (loadRecommended loader getFullYear state))
              = sum_list (map v2_runtime (movies (track_a result)))
          \<and> sumRuntime (trackBMovies (loadRecommended loader getFullYear state))
              = sum_list (map v2_runtime (movies (track_b result))))"
proof -
  have reset: "totalsMatch (resetFilters state)"
    by (simp add: totalsMatch_def resetFilters_def sumRuntime_def)
  have filt: "totalsMatch (setTime t state) = totalsMatch state"
    "totalsMatch (toggleGenre genre state) = totalsMatch state"
    "totalsMatch (toggleExcludeAdult state) = totalsMatch state"
    by (simp_all add: totalsMatch_def setTime_def toggleGenre_def toggleExcludeAdult_def)
  have empty: "sumRuntime [] = 0"
    by (simp add: sumRuntime_def)
  have keepA: "totalsMatch (snd (removeRecommendedMovie server getFullYear movieId state))"
    if "totalsMatch state"
    using that
    by (auto simp: removeRecommendedMovie_def Let_def totalsMatch_def remainingRuntime_sum
        sumRuntime_splice responseInterceptor_def resetFilters_def setUserId_def
        empty split: option.splits sum.splits)
  have keepB: "totalsMatch (snd (removePopularMovie server getFullYear movieId state))"
    if "totalsMatch state"
    using that
    by (auto simp: removePopularMovie_def Let_def totalsMatch_def remainingRuntime_sum
        sumRuntime_splice responseInterceptor_def resetFilters_def setUserId_def
        empty split: option.splits sum.splits)
  have newA: "trackATotalRuntime (snd (removeRecommendedMovie server getFullYear movieId state))
        = sumRuntime (trackAMovies (snd (removeRecommendedMovie server getFullYear movieId state)))"
    if "fst (removeRecommendedMovie server getFullYear movieId state) = Some request"
      and "replyOffers (server request) = Some v2Movie"
    using that
    by (auto simp: removeRecommendedMovie_def Let_def replyOffers_def postReRecommendSingle_def
        remainingRuntime_sum sumRuntime_splice split: option.splits sum.splits if_splits)
  have newB: "trackBTotalRuntime (snd (removePopularMovie server getFullYear movieId state))
        = sumRuntime (trackBMovies (snd (removePopularMovie server getFullYear movieId state)))"
    if "fst (removePopularMovie server getFullYear movieId state) = Some request"
      and "replyOffers (server request) = Some v2Movie"
    using that
    by (auto simp: removePopularMovie_def Let_def replyOffers_def postReRecommendSingle_def
        remainingRuntime_sum sumRuntime_splice split: option.splits sum.splits if_splits)
  have conv: "sumRuntime (map (convertV2MovieToMovie getFullYear) vs) = sum_list (map v2_runtime vs)"
    for vs
    by (induction vs) (simp_all add: sumRuntime_def runtimeOr0_def convertV2MovieToMovie_def)
  have load: "trackATotalRuntime (loadRecommended loader getFullYear state)
                = total_runtime (track_a result)
            \<and> trackBTotalRuntime (loadRecommended loader getFullYear state)
                = total_runtime (track_b result)
            \<and> sumRuntime (trackAMovies (loadRecommended loader getFullYear state))
                = sum_list (map v2_runtime (movies (track_a result)))
            \<and> sumRuntime (trackBMovies (loadRecommended loader getFullYear state))
                = sum_list (map v2_runtime (movies (track_b result)))"
    if "postRecommendationsV2 loader (filters state) = Inr result"
    using that by (simp add: loadRecommended_def Let_def conv)
  from reset filt keepA keepB newA newB load show ?thesis
    by blast
qed

theorem totals_by_action_witness:
  "totalsMatch scenarioState
   \<and> totalsMatch (snd (removeRecommendedMovie serverOffersZ noYear 2 scenarioState))
   \<and> fst (removeRecommendedMovie serverOffersZ noYear 2 scenarioState) = Some requestA
   \<and> replyOffers (serverOffersZ requestA) = Some itemZ
   \<and> trackATotalRuntime (snd (removeRecommendedMovie serverOffersZ noYear 2 scenarioState))
       = sumRuntime (trackAMovies (snd (removeRecommendedMovie serverOffersZ noYear 2 scenarioState)))
   \<and> fst (removePopularMovie serverOffersZ noYear 2 scenarioStateB) = Some requestB
   \<and> replyOffers (serverOffersZ requestB) = Some itemZ
   \<and> trackBTotalRuntime (snd (removePopularMovie serverOffersZ noYear 2 scenarioStateB))
       = sumRuntime (trackBMovies (snd (removePopularMovie serverOffersZ noYear 2 scenarioStateB)))
   \<and> postRecommendationsV2 loadReturnsZ (filters scenarioState) = Inr responseZ
   \<and> trackATotalRuntime (loadRecommended loadReturnsZ noYear scenarioState) = 100"
proof -
  have m: "totalsMatch scenarioState"
    by (simp add: totalsMatch_def sumRuntime_def runtimeOr0_def scenarioState_def
        movieX_def movieY_def)
  have oA: "replyOffers (serverOffersZ requestA) = Some itemZ"
    and oB: "replyOffers (serverOffersZ requestB) = Some itemZ"
    by (simp_all add: replyOffers_def serverOffersZ_def)
  have sA: "fst (removeRecommendedMovie serverOffersZ noYear 2 scenarioState) = Some requestA"
    by (rule sent_A)
  have sB: "fst (removePopularMovie serverOffersZ noYear 2 scenarioStateB) = Some requestB"
    by (rule sent_B)
  have ld: "postRecommendationsV2 loadReturnsZ (filters scenarioState) = Inr responseZ"
    by (simp add: postRecommendationsV2_def loadReturnsZ_def)
  have tot: "total_runtime (track_a responseZ) = 100"
    by (simp add: responseZ_def)
  note atA = totals_by_action
    [where state = scenarioState and server = serverOffersZ and getFullYear = noYear
       and movieId = 2 and request = requestA and ?v2Movie = itemZ
       and loader = loadReturnsZ and result = responseZ]
  note atB = totals_by_action
    [where state = scenarioStateB and server = serverOffersZ and getFullYear = noYear
       and movieId = 2 and request = requestB and ?v2Movie = itemZ]
  from atA m sA oA ld tot
  have "totalsMatch (snd (removeRecommendedMovie serverOffersZ noYear 2 scenarioState))
        \<and> trackATotalRuntime (snd (removeRecommendedMovie serverOffersZ noYear 2 scenarioState))
            = sumRuntime (trackAMovies
                (snd (removeRecommendedMovie serverOffersZ noYear 2 scenarioState)))
        \<and> trackATotalRuntime (loadRecommended loadReturnsZ noYear scenarioState) = 100"
    by simp
  moreover from atB sB oB
  have "trackBTotalRuntime (snd (removePopularMovie serverOffersZ noYear 2 scenarioStateB))
          = sumRuntime (trackBMovies
              (snd (removePopularMovie serverOffersZ noYear 2 scenarioStateB)))"
    by blast
  ultimately show ?thesis
    using m sA sB oA oB ld by simp
qed

text \<open>
  C4, at the failing input. The filter actions of the second definition of the store
  (source lines 491-509) are run on the scenario state, whose \<open>excludedIds\<close> holds the
  ids \<open>1\<close> and \<open>2\<close>. Each writes its field of \<open>filters\<close>; after each, \<open>excludedIds\<close>
  still holds both ids. The filter actions of the first definition empty the list
  (lemmas \<open>setTime_effect\<close>, \<open>toggleGenre_effect\<close>, \<open>toggleExcludeAdult_effect\<close>).
\<close>

theorem filter_actions2_keep_excludedIds:
  "time (filters (setTime2 ''01:30'' scenarioState)) = ''01:30''
   \<and> excludedIds (setTime2 ''01:30'' scenarioState) = [1, 2]
   \<and> genres (filters (toggleGenre2 ''Drama'' scenarioState)) = [''Action'', ''Drama'']
   \<and> excludedIds (toggleGenre2 ''Drama'' scenarioState) = [1, 2]
   \<and> excludeAdult (filters (toggleExcludeAdult2 scenarioState)) = False
   \<and> excludedIds (toggleExcludeAdult2 scenarioState) = [1, 2]"
  by (simp add: setTime2_def toggleGenre2_def toggleExcludeAdult2_def scenarioState_def)

text \<open>
  C5, as the claim states it, fails. \<open>resetFilters\<close> is run on a state that is loading
  and carries an error message: afterwards \<open>isLoading\<close> is still true and \<open>error\<close>
  still holds the message.
\<close>

theorem resetFilters_counterexample:
  "isLoading (resetFilters busyState) = True
   \<and> error (resetFilters busyState) = Some msgLoadFailed"
  by (simp add: resetFilters_def busyState_def)

text \<open>
  C5, amended. For every state, after \<open>resetFilters\<close> the filter selection is the
  default (time \<open>"00:00"\<close>, no genres, \<open>excludeAdult\<close> false), both tracks and both
  legacy lists are empty, both total running times are \<open>0\<close>, both labels are the
  initial ones and \<open>excludedIds\<close> is empty; \<open>isLoading\<close>, \<open>error\<close>, \<open>userId\<close> and
  \<open>detailMovieId\<close> are what they were before.
\<close>

theorem resetFilters_result:
  "filters (resetFilters state) = \<lparr> time = ''00:00'', genres = [], excludeAdult = False \<rparr>
   \<and> trackAMovies (resetFilters state) = [] \<and> trackATotalRuntime (resetFilters state) = 0
   \<and> trackBMovies (resetFilters state) = [] \<and> trackBTotalRuntime (resetFilters state) = 0
   \<and> trackALabel (resetFilters state) = defaultTrackALabel
   \<and> trackBLabel (resetFilters state) = defaultTrackBLabel
   \<and> recommendedMovies (resetFilters state) = [] \<and> popularMovies (resetFilters state) = []
   \<and> excludedIds (resetFilters state) = []
   \<and> isLoading (resetFilters state) = isLoading state
   \<and> error (resetFilters state) = error state
   \<and> userId (resetFilters state) = userId state
   \<and> detailMovieId (resetFilters state) = detailMovieId state"
  by (simp add: resetFilters_def)

text \<open>
  C6. For every state and every server response, after a successful \<open>loadRecommended\<close>
  the ids on \<open>excludedIds\<close> are exactly the ids of the items of the two tracks: the list
  is the ids of Track A's items followed by the ids of Track B's items, so every item's
  id is on it and every entry is the id of an item.
\<close>

theorem load_success_excludedIds:
  "postRecommendationsV2 server (filters state) = Inr result
   \<longrightarrow> excludedIds (loadRecommended server getFullYear state)
         = map movie_id (trackAMovies (loadRecommended server getFullYear state)
                         @ trackBMovies (loadRecommended server getFullYear state))
       \<and> set (excludedIds (loadRecommended server getFullYear state))
         = movie_id ` set (trackAMovies (loadRecommended server getFullYear state))
           \<union> movie_id ` set (trackBMovies (loadRecommended server getFullYear state))"
proof
  assume ok: "postRecommendationsV2 server (filters state) = Inr result"
  have ids: "movie_id (convertV2MovieToMovie getFullYear v) = v2_tmdb_id v" for v
    by (simp add: convertV2MovieToMovie_def)
  have "excludedIds (loadRecommended server getFullYear state)
          = map movie_id (trackAMovies (loadRecommended server getFullYear state)
                          @ trackBMovies (loadRecommended server getFullYear state))"
    using ok by (simp add: loadRecommended_def Let_def ids)
  moreover from this
  have "set (excludedIds (loadRecommended server getFullYear state))
          = movie_id ` set (trackAMovies (loadRecommended server getFullYear state))
            \<union> movie_id ` set (trackBMovies (loadRecommended server getFullYear state))"
    by (simp add: image_Un)
  ultimately show "excludedIds (loadRecommended server getFullYear state)
         = map movie_id (trackAMovies (loadRecommended server getFullYear state)
                         @ trackBMovies (loadRecommended server getFullYear state))
       \<and> set (excludedIds (loadRecommended server getFullYear state))
         = movie_id ` set (trackAMovies (loadRecommended server getFullYear state))
           \<union> movie_id ` set (trackBMovies (loadRecommended server getFullYear state))"
    by (rule conjI)
qed

theorem load_success_excludedIds_witness:
  "postRecommendationsV2 loadReturnsZ (filters scenarioState) = Inr responseZ
   \<and> set (excludedIds (loadRecommended loadReturnsZ noYear scenarioState))
       = movie_id ` set (trackAMovies (loadRecommended loadReturnsZ noYear scenarioState))
         \<union> movie_id ` set (trackBMovies (loadRecommended loadReturnsZ noYear scenarioState))"
proof -
  have ld: "postRecommendationsV2 loadReturnsZ (filters scenarioState) = Inr responseZ"
    by (simp add: postRecommendationsV2_def loadReturnsZ_def)
  from load_success_excludedIds [of loadReturnsZ scenarioState responseZ noYear] ld
  show ?thesis by blast
qed

text \<open>
  C7, as the claim states it, fails. In a Track A that holds \<open>Y\<close>, \<open>X\<close>, \<open>Y\<close>, the id
  \<open>2\<close> is present at index \<open>0\<close>. The replacement of id \<open>2\<close> is answered with the item
  \<open>Z\<close>: the action drops both items with that id, and the track goes from three items
  to two.
\<close>

theorem replace_success_counterexample:
  "movie_id (trackAMovies twiceState ! 0) = 2
   \<and> length (trackAMovies twiceState) = 3
   \<and> replyOffers (serverOffersZ requestA) = Some itemZ
   \<and> length (trackAMovies (snd (removeRecommendedMovie serverOffersZ noYear 2 twiceState))) = 2"
  by (simp add: removeRecommendedMovie_def scenario_defs Let_def postReRecommendSingle_def
      replyOffers_def splice_def)

text \<open>
  C7, amended. For every state in which \<open>movieId\<close> is the id of the item at index \<open>i\<close>
  of the track and of no other item of the track, if the call of the replacement action
  is answered with a replacement item, then afterwards the track is the old track with
  the mapped replacement item written at index \<open>i\<close>: its length is unchanged, the
  mapped item is at index \<open>i\<close>, and \<open>excludedIds\<close> is the old list followed by the
  removed id and the id of the new item.
\<close>

theorem replace_success_in_place:
  "(presentOnlyAt i movieId (trackAMovies state)
      \<longrightarrow> fst (removeRecommendedMovie server getFullYear movieId state) = Some request
      \<longrightarrow> replyOffers (server request) = Some v2Movie
      \<longrightarrow> trackAMovies (snd (removeRecommendedMovie server getFullYear movieId state))
            = (trackAMovies state)[i := convertV2MovieToMovie getFullYear v2Movie]
        \<and> length (trackAMovies (snd (removeRecommendedMovie server getFullYear movieId state)))
            = length (trackAMovies state)
        \<and> trackAMovies (snd (removeRecommendedMovie server getFullYear movieId state)) ! i
            = convertV2MovieToMovie getFullYear v2Movie
        \<and> excludedIds (snd (removeRecommendedMovie server getFullYear movieId state))
            = excludedIds state @ [movieId, v2_tmdb_id v2Movie])
   \<and> (presentOnlyAt i movieId (trackBMovies state)
      \<longrightarrow> fst (removePopularMovie server getFullYear movieId state) = Some request
      \<longrightarrow> replyOffers (server request) = Some v2Movie
      \<longrightarrow> trackBMovies (snd (removePopularMovie server getFullYear movieId state))
            = (trackBMovies state)[i := convertV2MovieToMovie getFullYear v2Movie]
        \<and> length (trackBMovies (snd (removePopularMovie server getFullYear movieId state)))
            = length (trackBMovies state)
        \<and> trackBMovies (snd (removePopularMovie server getFullYear movieId state)) ! i
            = convertV2MovieToMovie getFullYear v2Movie
        \<and> excludedIds (snd (removePopularMovie server getFullYear movieId state))
            = excludedIds state @ [movieId, v2_tmdb_id v2Movie])"
proof -
  have newid: "movie_id (convertV2MovieToMovie getFullYear v2Movie) = v2_tmdb_id v2Movie"
    by (simp add: convertV2MovieToMovie_def)
  have partA: "trackAMovies (snd (removeRecommendedMovie server getFullYear movieId state))
            = (trackAMovies state)[i := convertV2MovieToMovie getFullYear v2Movie]
        \<and> excludedIds (snd (removeRecommendedMovie server getFullYear movieId state))
            = excludedIds state @ [movieId, v2_tmdb_id v2Movie]"
    if p: "presentOnlyAt i movieId (trackAMovies state)"
      and s: "fst (removeRecommendedMovie server getFullYear movieId state) = Some request"
      and o: "replyOffers (server request) = Some v2Movie"
    using s o
    by (auto simp: removeRecommendedMovie_def Let_def replyOffers_def postReRecommendSingle_def
        presentOnlyAt_findIndex [OF p] presentOnlyAt_splice [OF p] newid
        split: sum.splits option.splits if_splits)
  have partB: "trackBMovies (snd (removePopularMovie server getFullYear movieId state))
            = (trackBMovies state)[i := convertV2MovieToMovie getFullYear v2Movie]
        \<and> excludedIds (snd (removePopularMovie server getFullYear movieId state))
            = excludedIds state @ [movieId, v2_tmdb_id v2Movie]"
    if p: "presentOnlyAt i movieId (trackBMovies state)"
      and s: "fst (removePopularMovie server getFullYear movieId state) = Some request"
      and o: "replyOffers (server request) = Some v2Movie"
    using s o
    by (auto simp: removePopularMovie_def Let_def replyOffers_def postReRecommendSingle_def
        presentOnlyAt_findIndex [OF p] presentOnlyAt_splice [OF p] newid
        split: sum.splits option.splits if_splits)
  have lenA: "i < length (trackAMovies state)" if "presentOnlyAt i movieId (trackAMovies state)"
    using that by (simp add: presentOnlyAt_def)
  have lenB: "i < length (trackBMovies state)" if "presentOnlyAt i movieId (trackBMovies state)"
    using that by (simp add: presentOnlyAt_def)
  show ?thesis
  proof (intro conjI impI)
    assume h: "presentOnlyAt i movieId (trackAMovies state)"
      "fst (removeRecommendedMovie server getFullYear movieId state) = Some request"
      "replyOffers (server request) = Some v2Movie"
    from partA [OF h]
    show "trackAMovies (snd (removeRecommendedMovie server getFullYear movieId state))
            = (trackAMovies state)[i := convertV2MovieToMovie getFullYear v2Movie]"
      and "excludedIds (snd (removeRecommendedMovie server getFullYear movieId state))
            = excludedIds state @ [movieId, v2_tmdb_id v2Movie]"
      by simp_all
    from partA [OF h] lenA [OF h(1)]
    show "length (trackAMovies (snd (removeRecommendedMovie server getFullYear movieId state)))
            = length (trackAMovies state)"
      and "trackAMovies (snd (removeRecommendedMovie server getFullYear movieId state)) ! i
            = convertV2MovieToMovie getFullYear v2Movie"
      by simp_all
  next
    assume h: "presentOnlyAt i movieId (trackBMovies state)"
      "fst (removePopularMovie server getFullYear movieId state) = Some request"
      "replyOffers (server request) = Some v2Movie"
    from partB [OF h]
    show "trackBMovies (snd (removePopularMovie server getFullYear movieId state))
            = (trackBMovies state)[i := convertV2MovieToMovie getFullYear v2Movie]"
      and "excludedIds (snd (removePopularMovie server getFullYear movieId state))
            = excludedIds state @ [movieId, v2_tmdb_id v2Movie]"
      by simp_all
    from partB [OF h] lenB [OF h(1)]
    show "length (trackBMovies (snd (removePopularMovie server getFullYear movieId state)))
            = length (trackBMovies state)"
      and "trackBMovies (snd (removePopularMovie server getFullYear movieId state)) ! i
            = convertV2MovieToMovie getFullYear v2Movie"
      by simp_all
  qed
qed

theorem replace_success_in_place_witness:
  "presentOnlyAt 1 2 (trackAMovies scenarioState)
   \<and> fst (removeRecommendedMovie serverOffersZ noYear 2 scenarioState) = Some requestA
   \<and> replyOffers (serverOffersZ requestA) = Some itemZ
   \<and> trackAMovies (snd (removeRecommendedMovie serverOffersZ noYear 2 scenarioState))
       = [movieX, convertV2MovieToMovie noYear itemZ]
   \<and> excludedIds (snd (removeRecommendedMovie serverOffersZ noYear 2 scenarioState))
       = [1, 2, 2, 3]
   \<and> presentOnlyAt 1 2 (trackBMovies scenarioStateB)
   \<and> fst (removePopularMovie serverOffersZ noYear 2 scenarioStateB) = Some requestB
   \<and> replyOffers (serverOffersZ requestB) = Some itemZ
   \<and> trackBMovies (snd (removePopularMovie serverOffersZ noYear 2 scenarioStateB))
       = [movieX, convertV2MovieToMovie noYear itemZ]
   \<and> excludedIds (snd (removePopularMovie serverOffersZ noYear 2 scenarioStateB))
       = [1, 2, 2, 3]"
proof -
  have pA: "presentOnlyAt 1 2 (trackAMovies scenarioState)"
    and pB: "presentOnlyAt 1 2 (trackBMovies scenarioStateB)"
    by (simp_all add: presentOnlyAt_def scenarioState_def scenarioStateB_def movieX_def movieY_def)
  have oA: "replyOffers (serverOffersZ requestA) = Some itemZ"
    and oB: "replyOffers (serverOffersZ requestB) = Some itemZ"
    by (simp_all add: replyOffers_def serverOffersZ_def)
  have sA: "fst (removeRecommendedMovie serverOffersZ noYear 2 scenarioState) = Some requestA"
    by (rule sent_A)
  have sB: "fst (removePopularMovie serverOffersZ noYear 2 scenarioStateB) = Some requestB"
    by (rule sent_B)
  have tA: "(trackAMovies scenarioState)[1 := convertV2MovieToMovie noYear itemZ]
              = [movieX, convertV2MovieToMovie noYear itemZ]"
    and tB: "(trackBMovies scenarioStateB)[1 := convertV2MovieToMovie noYear itemZ]
              = [movieX, convertV2MovieToMovie noYear itemZ]"
    and ex: "excludedIds scenarioState @ [2, v2_tmdb_id itemZ] = [1, 2, 2, 3]"
      "excludedIds scenarioStateB @ [2, v2_tmdb_id itemZ] = [1, 2, 2, 3]"
    by (simp_all add: scenarioState_def scenarioStateB_def itemZ_def)
  from replace_success_in_place
         [where i = 1 and movieId = 2 and state = scenarioState and server = serverOffersZ
            and getFullYear = noYear and request = requestA and ?v2Movie = itemZ]
       pA sA oA tA ex(1)
  have "trackAMovies (snd (removeRecommendedMovie serverOffersZ noYear 2 scenarioState))
          = [movieX, convertV2MovieToMovie noYear itemZ]
        \<and> excludedIds (snd (removeRecommendedMovie serverOffersZ noYear 2 scenarioState))
          = [1, 2, 2, 3]"
    by simp
  moreover
  from replace_success_in_place
         [where i = 1 and movieId = 2 and state = scenarioStateB and server = serverOffersZ
            and getFullYear = noYear and request = requestB and ?v2Movie = itemZ]
       pB sB oB tB ex(2)
  have "trackBMovies (snd (removePopularMovie serverOffersZ noYear 2 scenarioStateB))
          = [movieX, convertV2MovieToMovie noYear itemZ]
        \<and> excludedIds (snd (removePopularMovie serverOffersZ noYear 2 scenarioStateB))
          = [1, 2, 2, 3]"
    by simp
  ultimately show ?thesis
    using pA pB sA sB oA oB by simp
qed

text \<open>
  C8. For every state whose budget is the \<open>"HH:MM"\<close> text of \<open>hours\<close> and \<open>minutes\<close>
  and every \<open>movieId\<close> that is the id of an item of the track, the replacement action
  sends a request whose \<open>target_runtime\<close> is \<open>hours * 60 + minutes\<close> minus the sum of
  the running times of the items that remain in the track when those with that id are
  taken out. With \<open>X\<close> (90 minutes) and \<open>Y\<close> (30 minutes) in the track and the budget
  \<open>"02:30"\<close>, the replacement of \<open>Y\<close> asks for 60 minutes.
\<close>

theorem replace_target_runtime:
  assumes "hours < 100" and "minutes < 100"
    and "time (filters state) = hhmm hours minutes"
  shows "(movieId \<in> movie_id ` set (trackAMovies state)
           \<longrightarrow> map_option target_runtime
                 (fst (removeRecommendedMovie server getFullYear movieId state))
               = Some (Some (int hours * 60 + int minutes
                   - sumRuntime (filter (\<lambda>m. movie_id m \<noteq> movieId) (trackAMovies state)))))
       \<and> (movieId \<in> movie_id ` set (trackBMovies state)
           \<longrightarrow> map_option target_runtime
                 (fst (removePopularMovie server getFullYear movieId state))
               = Some (Some (int hours * 60 + int minutes
                   - sumRuntime (filter (\<lambda>m. movie_id m \<noteq> movieId) (trackBMovies state)))))"
proof -
  have budget: "userInputTime (time (filters state)) = Some (int hours * 60 + int minutes)"
    using assms by (simp add: userInputTime_hhmm)
  have found: "\<exists>k. findIndex (\<lambda>m. movie_id m = movieId) ms = Some k"
    if "movieId \<in> movie_id ` set ms" for ms
  proof (cases "findIndex (\<lambda>m. movie_id m = movieId) ms")
    case None
    then have "\<forall>m \<in> set ms. movie_id m \<noteq> movieId"
      by (simp add: findIndex_None_iff)
    with that show ?thesis by blast
  next
    case (Some k)
    then show ?thesis by blast
  qed
  show ?thesis
  proof (intro conjI impI)
    assume "movieId \<in> movie_id ` set (trackAMovies state)"
    then obtain k where "findIndex (\<lambda>m. movie_id m = movieId) (trackAMovies state) = Some k"
      using found by blast
    then show "map_option target_runtime
                 (fst (removeRecommendedMovie server getFullYear movieId state))
               = Some (Some (int hours * 60 + int minutes
                   - sumRuntime (filter (\<lambda>m. movie_id m \<noteq> movieId) (trackAMovies state))))"
      by (simp add: removeRecommendedMovie_def Let_def targetRuntime_def budget
          remainingRuntime_sum)
  next
    assume "movieId \<in> movie_id ` set (trackBMovies state)"
    then obtain k where "findIndex (\<lambda>m. movie_id m = movieId) (trackBMovies state) = Some k"
      using found by blast
    then show "map_option target_runtime
                 (fst (removePopularMovie server getFullYear movieId state))
               = Some (Some (int hours * 60 + int minutes
                   - sumRuntime (filter (\<lambda>m. movie_id m \<noteq> movieId) (trackBMovies state))))"
      by (simp add: removePopularMovie_def Let_def targetRuntime_def budget
          remainingRuntime_sum)
  qed
qed

theorem replace_target_runtime_witness:
  "time (filters scenarioState) = hhmm 2 30
   \<and> 2 \<in> movie_id ` set (trackAMovies scenarioState)
   \<and> map_option target_runtime (fst (removeRecommendedMovie serverOffersZ noYear 2 scenarioState))
       = Some (Some 60)
   \<and> time (filters scenarioStateB) = hhmm 2 30
   \<and> 2 \<in> movie_id ` set (trackBMovies scenarioStateB)
   \<and> map_option target_runtime (fst (removePopularMovie serverOffersZ noYear 2 scenarioStateB))
       = Some (Some 60)"
proof -
  have h: "(2::nat) < 100" and m: "(30::nat) < 100"
    by simp_all
  have "hhmm 2 30 = ''02:30''"
    by code_simp
  then have tA: "time (filters scenarioState) = hhmm 2 30"
    and tB: "time (filters scenarioStateB) = hhmm 2 30"
    by (simp_all add: scenarioState_def scenarioStateB_def)
  have inA: "2 \<in> movie_id ` set (trackAMovies scenarioState)"
    and inB: "2 \<in> movie_id ` set (trackBMovies scenarioStateB)"
    by (simp_all add: scenarioState_def scenarioStateB_def movieX_def movieY_def)
  have restA: "sumRuntime (filter (\<lambda>m. movie_id m \<noteq> 2) (trackAMovies scenarioState)) = 90"
    and restB: "sumRuntime (filter (\<lambda>m. movie_id m \<noteq> 2) (trackBMovies scenarioStateB)) = 90"
    by (simp_all add: scenarioState_def scenarioStateB_def movieX_def movieY_def
        sumRuntime_def runtimeOr0_def)
  from replace_target_runtime [OF h m tA, of 2 serverOffersZ noYear] inA restA
  have "map_option target_runtime
          (fst (removeRecommendedMovie serverOffersZ noYear 2 scenarioState)) = Some (Some 60)"
    by simp
  moreover
  from replace_target_runtime [OF h m tB, of 2 serverOffersZ noYear] inB restB
  have "map_option target_runtime
          (fst (removePopularMovie serverOffersZ noYear 2 scenarioStateB)) = Some (Some 60)"
    by simp
  ultimately show ?thesis
    using tA tB inA inB by simp
qed

text \<open>
  C9. For every state and every \<open>movieId\<close> that is not the id of an item of the named
  track, the replacement action (\<open>removeRecommendedMovie\<close> for Track A,
  \<open>removePopularMovie\<close> for Track B) returns the state as it was and sends no request.
\<close>

theorem replace_absent_is_noop:
  "(movieId \<notin> movie_id ` set (trackAMovies state)
      \<longrightarrow> removeRecommendedMovie server getFullYear movieId state = (None, state))
   \<and> (movieId \<notin> movie_id ` set (trackBMovies state)
      \<longrightarrow> removePopularMovie server getFullYear movieId state = (None, state))"
  by (simp add: removeRecommendedMovie_def removePopularMovie_def findIndex_absent)

theorem replace_absent_is_noop_witness:
  "9 \<notin> movie_id ` set (trackAMovies scenarioState)
   \<and> 9 \<notin> movie_id ` set (trackBMovies scenarioState)
   \<and> removeRecommendedMovie serverOffersZ noYear 9 scenarioState = (None, scenarioState)
   \<and> removePopularMovie serverOffersZ noYear 9 scenarioState = (None, scenarioState)"
proof -
  have a: "9 \<notin> movie_id ` set (trackAMovies scenarioState)"
    by (simp add: scenarioState_def movieX_def movieY_def)
  have b: "9 \<notin> movie_id ` set (trackBMovies scenarioState)"
    by (simp add: scenarioState_def)
  from replace_absent_is_noop [of 9 scenarioState serverOffersZ noYear] a b
  show ?thesis by blast
qed

text \<open>
  C10. The legacy fields mirror the tracks (\<open>recommendedMovies\<close> equals \<open>trackAMovies\<close>
  and \<open>popularMovies\<close> equals \<open>trackBMovies\<close>) in the initial state, and every action
  of the store keeps it so: \<open>loadRecommended\<close> whether the call succeeds or throws,
  \<open>removeRecommendedMovie\<close> and \<open>removePopularMovie\<close> whatever the reply, the three
  filter actions, \<open>resetFilters\<close>, \<open>setUserId\<close> and \<open>setDetailMovieId\<close>.
\<close>

theorem aliases_mirror_tracks:
  "aliasesMirror initialState
   \<and> (aliasesMirror state
        \<longrightarrow> aliasesMirror (loadRecommended loader getFullYear state)
          \<and> aliasesMirror (snd (removeRecommendedMovie server getFullYear movieId state))
          \<and> aliasesMirror (snd (removePopularMovie server getFullYear movieId state))
          \<and> aliasesMirror (setTime t state)
          \<and> aliasesMirror (toggleGenre genre state)
          \<and> aliasesMirror (toggleExcludeAdult state)
          \<and> aliasesMirror (resetFilters state)
          \<and> aliasesMirror (setUserId uid state)
          \<and> aliasesMirror (setDetailMovieId detail state))"
proof -
  have init: "aliasesMirror initialState"
    by (simp add: aliasesMirror_def initialState_def)
  have load: "aliasesMirror (loadRecommended loader getFullYear state)"
    by (simp add: aliasesMirror_def loadRecommended_def Let_def responseInterceptor_def
        resetFilters_def setUserId_def split: sum.splits)
  have reset: "aliasesMirror (resetFilters state)"
    by (simp add: aliasesMirror_def resetFilters_def)
  have rest: "aliasesMirror (snd (removeRecommendedMovie server getFullYear movieId state))
      \<and> aliasesMirror (snd (removePopularMovie server getFullYear movieId state))
      \<and> aliasesMirror (setTime t state)
      \<and> aliasesMirror (toggleGenre genre state)
      \<and> aliasesMirror (toggleExcludeAdult state)
      \<and> aliasesMirror (setUserId uid state)
      \<and> aliasesMirror (setDetailMovieId detail state)"
    if "aliasesMirror state"
  proof (intro conjI)
    show "aliasesMirror (snd (removeRecommendedMovie server getFullYear movieId state))"
      using that
      by (auto simp: aliasesMirror_def removeRecommendedMovie_def Let_def responseInterceptor_def
          resetFilters_def setUserId_def split: option.splits sum.splits)
    show "aliasesMirror (snd (removePopularMovie server getFullYear movieId state))"
      using that
      by (auto simp: aliasesMirror_def removePopularMovie_def Let_def responseInterceptor_def
          resetFilters_def setUserId_def split: option.splits sum.splits)
  qed (use that in \<open>simp_all add: aliasesMirror_def setTime_def toggleGenre_def
         toggleExcludeAdult_def setUserId_def setDetailMovieId_def\<close>)
  from init load reset rest show ?thesis
    by blast
qed

theorem aliases_mirror_tracks_witness:
  "aliasesMirror scenarioState
   \<and> aliasesMirror (loadRecommended loadReturnsZ noYear scenarioState)
   \<and> aliasesMirror (snd (removeRecommendedMovie serverOffersZ noYear 2 scenarioState))
   \<and> aliasesMirror (snd (removePopularMovie serverOffersZ noYear 2 scenarioState))
   \<and> aliasesMirror (setTime ''01:30'' scenarioState)
   \<and> aliasesMirror (toggleGenre ''Drama'' scenarioState)
   \<and> aliasesMirror (toggleExcludeAdult scenarioState)
   \<and> aliasesMirror (resetFilters scenarioState)"
proof -
  have a: "aliasesMirror scenarioState"
    by (simp add: aliasesMirror_def scenarioState_def)
  from aliases_mirror_tracks
         [where state = scenarioState and loader = loadReturnsZ and getFullYear = noYear
            and server = serverOffersZ and movieId = 2 and t = "''01:30''"
            and genre = "''Drama''"] a
  show ?thesis by blast
qed

end
